theory Spec2Isabelle
  imports Main "HOL-Library.AList" "HOL-Library.Char_ord" "HOL-Library.List_Lexorder"
begin

section \<open>Values, errors and the world the program runs in\<close>

text \<open>
  The program is orchestration code: it shells out to the store toolchain, copies files
  and calls helper modules. The model threads a \<open>world\<close> through every function: the
  files visible to the process (absolute path and content) and the trace of the effectful
  calls made so far, in order. A function returns a pair: the thrown error (\<open>Inl\<close>) or the
  value (\<open>Inr\<close>), and the world as the call left it. Effects made before a throw persist,
  as they do in JavaScript.
\<close>

datatype json =
    JNull
  | JBool bool
  | JNumber int
  | JString string
  | JArray "json list"
  | JObject "(string \<times> json) list"

text \<open>
  Every \<^verbatim>\<open>throw new Error(...)\<close> of the source is one constructor, named after the error
  kinds of the specification; \<open>error_message\<close> gives the message the source builds.
\<close>

datatype error =
    ExternalToolFailure string
  | ExternalOutputMalformed string
  | UnknownHostname string "string list"
  | InvalidInstructionKind
  | InvalidInstruction string
  | UnknownCommandKind string
  | FileNotFound string
  | ClosureCycle

datatype event =
    Exec string
  | Progress string
  | ConsoleLog string
  | Mkdir string
  | Rm string
  | CopyFile string string
  | CopyOutputToArchive string string string
  | MakeArchiveSubset string string "string list" "string list"
  | CopyArchiveToStore string string "string option"
  | MakeNewSystemGeneration string string string
  | DecompressInstructionDir string string

record world =
  files :: "(string \<times> string) list"
  trace :: "event list"

type_synonym 'a io = "world \<Rightarrow> (error + 'a) \<times> world"

definition ok :: "'a \<Rightarrow> 'a io" where
  "ok a w = (Inr a, w)"

definition throw :: "error \<Rightarrow> 'a io" where
  "throw e w = (Inl e, w)"

definition andThen :: "'a io \<Rightarrow> ('a \<Rightarrow> 'b io) \<Rightarrow> 'b io" where
  "andThen m f w = (case m w of (Inl e, w') \<Rightarrow> (Inl e, w') | (Inr a, w') \<Rightarrow> f a w')"

definition emit :: "event \<Rightarrow> unit io" where
  "emit ev w = (Inr (), w\<lparr>trace := trace w @ [ev]\<rparr>)"

text \<open>The result of a side-effecting helper that returns nothing: \<open>None\<close> is success.\<close>

definition attempt :: "error option \<Rightarrow> unit io" where
  "attempt r = (case r of None \<Rightarrow> ok () | Some e \<Rightarrow> throw e)"

record exec_result =
  failed :: bool
  stdout :: string
  stderr :: string

record StoreRoot =
  nixPath :: string
  gitRevision :: string

record PathInfo =
  path :: string
  narHash :: string
  narSize :: int
  references :: "string list"

record Delta =
  added :: "PathInfo list"
  allResultingItems :: "PathInfo list"

text \<open>
  The instruction object as the handler \<^verbatim>\<open>dummy2\<close> of \<^verbatim>\<open>main.ts\<close> reads it:
  \<^verbatim>\<open>instruction.kind\<close>, \<^verbatim>\<open>instruction.item.archivePath\<close>, \<^verbatim>\<open>instruction.item.itemPath\<close>
  and \<^verbatim>\<open>instruction.deltaDependencies\<close>.
\<close>

record DirInstruction =
  instructionKind :: string
  itemArchivePath :: string
  itemItemPath :: string
  instructionDeltaDependencies :: "StoreRoot list"

text \<open>
  The collaborators that are not part of the modelled sources are parameters: the process
  runner \<^verbatim>\<open>execaCommand\<close>, \<^verbatim>\<open>JSON.parse\<close>, JavaScript's string conversion of a
  non-string value inside a template literal, and the helper modules \<^verbatim>\<open>nixArchive\<close>,
  \<^verbatim>\<open>nixStore\<close>, \<^verbatim>\<open>clientStore\<close>, \<^verbatim>\<open>nixGenerations\<close>, \<^verbatim>\<open>instructions\<close> and
  \<^verbatim>\<open>helpers\<close>. Each may read the whole world, so its answer may depend on everything
  that happened before. \<open>cacheKeepsExisting\<close> says whether the cache append of
  \<^verbatim>\<open>clientStore\<close> leaves an entry alone that the cache already holds.
\<close>

record env =
  execaCommand :: "world \<Rightarrow> string \<Rightarrow> exec_result"
  JSON_parse :: "string \<Rightarrow> json option"
  js_String :: "json \<Rightarrow> string"
  copyOutputToArchive :: "world \<Rightarrow> string \<Rightarrow> string \<Rightarrow> string \<Rightarrow> error option"
  getStoreDeltaPathsDelta :: "world \<Rightarrow> string \<Rightarrow> string list \<Rightarrow> string \<Rightarrow> error + Delta"
  makeArchiveSubset ::
    "world \<Rightarrow> string \<Rightarrow> string \<Rightarrow> string list \<Rightarrow> string list \<Rightarrow> error option"
  getNarinfoFileListForNixPaths ::
    "world \<Rightarrow> string option \<Rightarrow> string \<Rightarrow> string list \<Rightarrow> error + string list"
  copyArchiveToStore :: "world \<Rightarrow> string \<Rightarrow> string \<Rightarrow> string option \<Rightarrow> error option"
  makeNewSystemGeneration :: "world \<Rightarrow> string \<Rightarrow> string \<Rightarrow> string \<Rightarrow> error option"
  decompressInstructionDir :: "world \<Rightarrow> string \<Rightarrow> string \<Rightarrow> error + (string \<times> string) list"
  readDirInstruction :: "world \<Rightarrow> string \<Rightarrow> error + DirInstruction"
  assertInstructionDirValid_call :: "world \<Rightarrow> string \<Rightarrow> error option"
  ensurePathAbsolute :: "string \<Rightarrow> string"
  isDirectory :: "world \<Rightarrow> string \<Rightarrow> bool"
  cacheKeepsExisting :: bool

section \<open>JavaScript values in conditions and template strings\<close>

text \<open>
  A value read out of parsed JSON is \<open>json option\<close>, \<open>None\<close> being \<^verbatim>\<open>undefined\<close>.
  \<open>truthy\<close> is the test of \<^verbatim>\<open>rev ? a : b\<close>; \<open>template\<close> is \<^verbatim>\<open>${v}\<close>.
\<close>

fun truthy :: "json option \<Rightarrow> bool" where
  "truthy None = False"
| "truthy (Some JNull) = False"
| "truthy (Some (JBool b)) = b"
| "truthy (Some (JNumber n)) = (n \<noteq> 0)"
| "truthy (Some (JString s)) = (s \<noteq> [])"
| "truthy (Some (JArray xs)) = True"
| "truthy (Some (JObject fs)) = True"

fun template :: "env \<Rightarrow> json option \<Rightarrow> string" where
  "template E None = ''undefined''"
| "template E (Some JNull) = ''null''"
| "template E (Some (JBool b)) = (if b then ''true'' else ''false'')"
| "template E (Some (JString s)) = s"
| "template E (Some v) = js_String E v"

section \<open>nixFlake.ts\<close>

definition execa :: "env \<Rightarrow> string \<Rightarrow> exec_result io" where
  "execa E cmd w = (Inr (execaCommand E w cmd), w\<lparr>trace := trace w @ [Exec cmd]\<rparr>)"

text \<open>
  \<^verbatim>\<open>getRevisionFromRef\<close>: runs \<^verbatim>\<open>nix flake info --json <uri>[?ref=<ref>]\<close> and returns
  \<^verbatim>\<open>JSON.parse(result.stdout).revision\<close>. The property read of \<^verbatim>\<open>null\<close> throws inside the
  \<^verbatim>\<open>try\<close>; on any other non-object value it is \<^verbatim>\<open>undefined\<close>.
\<close>

definition flakeInfoCommand :: "string \<Rightarrow> string option \<Rightarrow> string" where
  "flakeInfoCommand uri ref =
     (let refArg = (case ref of None \<Rightarrow> [] | Some r \<Rightarrow> if r = [] then [] else ''?ref='' @ r)
      in ''nix flake info --json '' @ uri @ refArg)"

definition getRevisionFromRef :: "env \<Rightarrow> string \<Rightarrow> string option \<Rightarrow> (json option) io" where
  "getRevisionFromRef E uri ref =
     andThen (execa E (flakeInfoCommand uri ref)) (\<lambda>result.
       if failed result then throw (ExternalToolFailure (stderr result))
       else (case JSON_parse E (stdout result) of
               None \<Rightarrow> throw (ExternalOutputMalformed (stdout result))
             | Some JNull \<Rightarrow> throw (ExternalOutputMalformed (stdout result))
             | Some (JObject fs) \<Rightarrow> ok (map_of fs ''revision'')
             | Some _ \<Rightarrow> ok None))"

definition flakeShowCommand :: "env \<Rightarrow> string \<Rightarrow> json option \<Rightarrow> string" where
  "flakeShowCommand E uri revn =
     (let revArg = (if truthy revn then ''?rev='' @ template E revn else [])
      in ''nix flake show --json '' @ uri @ revArg)"

definition getFlakeInfo :: "env \<Rightarrow> string \<Rightarrow> json option \<Rightarrow> json io" where
  "getFlakeInfo E uri revn =
     andThen (execa E (flakeShowCommand E uri revn)) (\<lambda>result.
       if failed result then throw (ExternalToolFailure (stderr result))
       else (case JSON_parse E (stdout result) of
               None \<Rightarrow> throw (ExternalOutputMalformed (stdout result))
             | Some j \<Rightarrow> ok j))"

text \<open>
  \<^verbatim>\<open>configurationsSchema\<close>: an object whose optional field \<^verbatim>\<open>nixosConfigurations\<close> is a
  record. \<open>None\<close> is a failed \<^verbatim>\<open>safeParse\<close>; \<open>Some None\<close> is success with the field absent.
\<close>

fun configurationsSchema :: "json \<Rightarrow> (string \<times> json) list option option" where
  "configurationsSchema (JObject fs) =
     (case map_of fs ''nixosConfigurations'' of
        None \<Rightarrow> Some None
      | Some (JObject cs) \<Rightarrow> Some (Some cs)
      | Some _ \<Rightarrow> None)"
| "configurationsSchema _ = None"

definition getFlakeHostnames :: "env \<Rightarrow> string \<Rightarrow> json option \<Rightarrow> (string list) io" where
  "getFlakeHostnames E uri revn =
     andThen (getFlakeInfo E uri revn) (\<lambda>flakeInfo.
       case configurationsSchema flakeInfo of
         None \<Rightarrow> throw (ExternalOutputMalformed ''nixosConfigurations'')
       | Some None \<Rightarrow> ok []
       | Some (Some configurations) \<Rightarrow> ok (map fst configurations))"

text \<open>
  The argument object of \<^verbatim>\<open>buildSystemFlake\<close> as its callers build it. The declared type
  \<^verbatim>\<open>BuildFlakeArgs\<close> has the optional field \<^verbatim>\<open>ref\<close>; the callers in \<^verbatim>\<open>loadArchive.ts\<close> and in
  the switch command pass a property \<^verbatim>\<open>rev\<close> instead (\<open>revArg\<close> here), which the
  destructuring pattern of the function does not bind.
\<close>

record BuildFlakeArgs =
  flakeGitUri :: string
  storeAbsolutePath :: string
  hostname :: string
  ref :: "string option"
  revArg :: "string option"

record FlakeBuildResult =
  derivation :: string
  outputPath :: string
  resultGitRevision :: "json option"

text \<open>\<^verbatim>\<open>flakeBuildCommandResult\<close>: an array of length 1 of \<^verbatim>\<open>{drvPath, outputs: {out}}\<close>.\<close>

fun flakeBuildCommandResult :: "json \<Rightarrow> (string \<times> string) option" where
  "flakeBuildCommandResult (JArray [JObject fs]) =
     (case (map_of fs ''drvPath'', map_of fs ''outputs'') of
        (Some (JString d), Some (JObject os)) \<Rightarrow>
          (case map_of os ''out'' of Some (JString out) \<Rightarrow> Some (d, out) | _ \<Rightarrow> None)
      | _ \<Rightarrow> None)"
| "flakeBuildCommandResult _ = None"

definition nixBuildCommand :: "env \<Rightarrow> string \<Rightarrow> string \<Rightarrow> json option \<Rightarrow> string \<Rightarrow> string" where
  "nixBuildCommand E nixStoreRoot uri gitRev host =
     ''nix build --json --no-link --store '' @ nixStoreRoot @ '' '' @ uri @ ''?rev=''
       @ template E gitRev @ ''#'' @ ''nixosConfigurations.'' @ host
       @ ''.config.system.build.toplevel''"

definition buildSystemFlake :: "env \<Rightarrow> BuildFlakeArgs \<Rightarrow> FlakeBuildResult io" where
  "buildSystemFlake E args =
     andThen (getRevisionFromRef E (flakeGitUri args) (ref args)) (\<lambda>gitRev.
     andThen (getFlakeHostnames E (flakeGitUri args) gitRev) (\<lambda>hostnames.
       if hostname args \<notin> set hostnames
       then throw (UnknownHostname (hostname args) hostnames)
       else
     andThen (execa E (nixBuildCommand E (storeAbsolutePath args) (flakeGitUri args) gitRev
                         (hostname args))) (\<lambda>result.
       if failed result then throw (ExternalToolFailure (stderr result))
       else (case JSON_parse E (stdout result) of
               None \<Rightarrow> throw (ExternalOutputMalformed (stdout result))
             | Some j \<Rightarrow>
                 (case flakeBuildCommandResult j of
                    None \<Rightarrow> throw (ExternalOutputMalformed (stdout result))
                  | Some (d, out) \<Rightarrow>
                      ok \<lparr>derivation = d, outputPath = out, resultGitRevision = gitRev\<rparr>)))))"

fun joinStrings :: "string \<Rightarrow> string list \<Rightarrow> string" where
  "joinStrings sep [] = []"
| "joinStrings sep [x] = x"
| "joinStrings sep (x # y # ys) = x @ sep @ joinStrings sep (y # ys)"

fun error_message :: "error \<Rightarrow> string" where
  "error_message (UnknownHostname h hs) =
     ''No flake configuration found for hostname: '' @ h @ ''. Available hostnames: ''
       @ joinStrings '', '' hs"
| "error_message (ExternalToolFailure e) = e"
| "error_message (ExternalOutputMalformed raw) = raw"
| "error_message InvalidInstructionKind = ''Invalid instruction kind''"
| "error_message (InvalidInstruction reason) = reason"
| "error_message (UnknownCommandKind k) = k"
| "error_message (FileNotFound p) = p"
| "error_message ClosureCycle = ''ClosureCycle''"

section \<open>Paths and files\<close>

text \<open>
  Paths are strings, and \<^verbatim>\<open>path.join\<close>, \<^verbatim>\<open>path.normalize\<close> and \<^verbatim>\<open>path.basename\<close> are
  Node's POSIX functions. \<open>splitPath\<close> cuts a path at its separators, keeping the empty
  segments. \<open>normStep\<close> is one step of Node's \<^verbatim>\<open>normalizeString\<close>: an empty segment and
  \<^verbatim>\<open>.\<close> are dropped; \<^verbatim>\<open>..\<close> removes the segment before it, unless there is none or it is
  \<^verbatim>\<open>..\<close> itself, and then \<^verbatim>\<open>..\<close> is kept in a relative path and dropped in an absolute
  one; any other segment is appended.
\<close>

fun segs :: "string \<Rightarrow> string \<Rightarrow> string list" where
  "segs cur [] = [cur]"
| "segs cur (c # cs) = (if c = CHR ''/'' then cur # segs [] cs else segs (cur @ [c]) cs)"

definition splitPath :: "string \<Rightarrow> string list" where
  "splitPath p = segs [] p"

definition normStep :: "bool \<Rightarrow> string list \<Rightarrow> string \<Rightarrow> string list" where
  "normStep allowAboveRoot res seg =
     (if seg = [] \<or> seg = ''.'' then res
      else if seg = ''..'' then
        (if res \<noteq> [] \<and> last res \<noteq> ''..'' then butlast res
         else if allowAboveRoot then res @ [''..'']
         else res)
      else res @ [seg])"

definition normSegments :: "string \<Rightarrow> bool \<Rightarrow> string list" where
  "normSegments p allowAboveRoot = foldl (normStep allowAboveRoot) [] (splitPath p)"

definition normalizeString :: "string \<Rightarrow> bool \<Rightarrow> string" where
  "normalizeString p allowAboveRoot = joinStrings ''/'' (normSegments p allowAboveRoot)"

definition normalizePath :: "string \<Rightarrow> string" where
  "normalizePath p =
     (if p = [] then ''.''
      else
        let isAbsolute = (hd p = CHR ''/'');
            trailingSeparator = (last p = CHR ''/'');
            q = normalizeString p (\<not> isAbsolute)
        in if q = [] then (if isAbsolute then ''/'' else if trailingSeparator then ''./'' else ''.'')
           else (if isAbsolute then ''/'' else []) @ q @ (if trailingSeparator then ''/'' else []))"

text \<open>\<^verbatim>\<open>path.join(a, b)\<close>: the non-empty arguments, joined by a separator and normalised.\<close>

definition path_join :: "string \<Rightarrow> string \<Rightarrow> string" where
  "path_join a b =
     (if a = [] then (if b = [] then ''.'' else normalizePath b)
      else if b = [] then normalizePath a
      else normalizePath (a @ ''/'' @ b))"

text \<open>\<^verbatim>\<open>path.basename(p)\<close>: the last segment of the path, trailing separators set aside.\<close>

definition basename :: "string \<Rightarrow> string" where
  "basename p =
     rev (takeWhile (\<lambda>c. c \<noteq> CHR ''/'') (dropWhile (\<lambda>c. c = CHR ''/'') (rev p)))"

text \<open>
  The name of a directory entry: not empty, without separator, and neither \<^verbatim>\<open>.\<close> nor
  \<^verbatim>\<open>..\<close>. \<open>dirPrefix d\<close> is what \<^verbatim>\<open>path.join(d, name)\<close> puts before such a name; two
  strings name the same directory when they put the same prefix before a name.
\<close>

definition properName :: "string \<Rightarrow> bool" where
  "properName n = (n \<noteq> [] \<and> CHR ''/'' \<notin> set n \<and> n \<noteq> ''.'' \<and> n \<noteq> ''..'')"

definition dirPrefix :: "string \<Rightarrow> string" where
  "dirPrefix d =
     (if d = [] then []
      else
        let isAbsolute = (hd d = CHR ''/'');
            ss = normSegments d (\<not> isAbsolute)
        in (if isAbsolute then ''/'' else [])
           @ (if ss = [] then [] else joinStrings ''/'' ss @ ''/''))"

definition sameDirectory :: "string \<Rightarrow> string \<Rightarrow> bool" where
  "sameDirectory a b = (dirPrefix a = dirPrefix b)"

text \<open>
  Only files are modelled, not directories. A file is keyed by its normalised absolute
  path, the form in which \<^verbatim>\<open>path.join\<close> gives the paths of the program. A file is in a
  directory when joining the directory and the file's name gives the file's path; it is
  under a directory when its path is the directory or begins with the directory's prefix;
  the prefix of the current directory is empty, and the paths under it are the relative ones.
\<close>

definition inDir :: "string \<Rightarrow> string \<Rightarrow> bool" where
  "inDir dir p = (properName (basename p) \<and> path_join dir (basename p) = p)"

definition isUnder :: "string \<Rightarrow> string \<Rightarrow> bool" where
  "isUnder dir p =
     (p @ ''/'' = dirPrefix dir
      \<or> (take (length (dirPrefix dir)) p = dirPrefix dir
          \<and> (dirPrefix dir \<noteq> [] \<or> take 1 p \<noteq> ''/'')))"

definition readFile :: "world \<Rightarrow> string \<Rightarrow> string option" where
  "readFile w p = map_of (files w) p"

text \<open>
  \<^verbatim>\<open>fs.promises.copyFile(src, dst)\<close>: fails when the source is not an existing file,
  otherwise creates or overwrites the destination with the source's current content. A
  path whose last segment is empty, \<^verbatim>\<open>.\<close> or \<^verbatim>\<open>..\<close> names a directory or nothing, never
  a file.
\<close>

definition copyFile :: "string \<Rightarrow> string \<Rightarrow> unit io" where
  "copyFile src dst w =
     (if \<not> properName (basename src) then (Inl (FileNotFound src), w)
      else
        (case readFile w src of
           None \<Rightarrow> (Inl (FileNotFound src), w)
         | Some c \<Rightarrow>
             (Inr (), w\<lparr>files := AList.update dst c (files w),
                        trace := trace w @ [CopyFile src dst]\<rparr>)))"

text \<open>\<^verbatim>\<open>fs.promises.rm(dir, { recursive: true })\<close>: removes everything under the path.\<close>

definition rm :: "string \<Rightarrow> unit io" where
  "rm dir w =
     (Inr (), w\<lparr>files := filter (\<lambda>(p, c). \<not> isUnder dir p) (files w), trace := trace w @ [Rm dir]\<rparr>)"

text \<open>
  A call of a helper that returns nothing: the call is recorded, then the helper's failure,
  if any, is thrown. What the store toolchain does to the store and to its archives is
  recorded by the event only.
\<close>

definition call :: "event \<Rightarrow> (world \<Rightarrow> error option) \<Rightarrow> unit io" where
  "call ev r w =
     (case r w of
        None \<Rightarrow> (Inr (), w\<lparr>trace := trace w @ [ev]\<rparr>)
      | Some e \<Rightarrow> (Inl e, w\<lparr>trace := trace w @ [ev]\<rparr>))"

text \<open>A helper that only reads and returns a value.\<close>

definition query :: "(world \<Rightarrow> error + 'a) \<Rightarrow> 'a io" where
  "query r w = (r w, w)"

text \<open>
  The loop \<^verbatim>\<open>for (const f of fs) copyFile(f, path.join(dir, path.basename(f)))\<close>, which
  \<^verbatim>\<open>executeLoadArchiveDeltaCommand\<close> and \<^verbatim>\<open>dummy2\<close> run over the dependency info files.
\<close>

fun copyFilesInto :: "string \<Rightarrow> string list \<Rightarrow> unit io" where
  "copyFilesInto dir [] = ok ()"
| "copyFilesInto dir (f # fs) =
     andThen (copyFile f (path_join dir (basename f))) (\<lambda>_. copyFilesInto dir fs)"

definition isNarinfo :: "string \<Rightarrow> bool" where
  "isNarinfo p = (drop (length p - 8) p = ''.narinfo'')"

text \<open>
  Modelled from the spec: \<^verbatim>\<open>getAbsoluteFilesListInDir\<close> and \<^verbatim>\<open>getAbsoluteNarinfoListInDir\<close>
  of \<^verbatim>\<open>utils/files\<close>, which is not among the sources. They return the absolute paths of the
  files of a directory; the second keeps the info files (\<^verbatim>\<open>*.narinfo\<close>): "snapshot the
  current set of info files at \<^verbatim>\<open>absoluteArchive\<close>".
\<close>

definition getAbsoluteFilesListInDir :: "string \<Rightarrow> (string list) io" where
  "getAbsoluteFilesListInDir dir w =
     (Inr (remdups [p \<leftarrow> map fst (files w). inDir dir p]), w)"

definition getAbsoluteNarinfoListInDir :: "string \<Rightarrow> (string list) io" where
  "getAbsoluteNarinfoListInDir dir w =
     (Inr (remdups [p \<leftarrow> map fst (files w). inDir dir p \<and> isNarinfo p]), w)"

text \<open>
  Modelled from the spec: \<^verbatim>\<open>copyNarinfoFilesToCache\<close> of \<^verbatim>\<open>utils/clientStore\<close>, which is not
  among the sources. The spec describes it twice: "\<^verbatim>\<open>importInfoFiles(cacheDir, files)\<close>
  (copies files in by basename, overwriting duplicates)" and "append \<^verbatim>\<open>Ebefore\<close> into the
  client-state cache (copy files in, existing names kept)". Whether an entry the cache
  already holds is overwritten or kept is therefore the parameter \<open>keep\<close>. The helper
  receives paths, so it reads each file when it runs.
\<close>

fun copyIntoCache :: "bool \<Rightarrow> string \<Rightarrow> string list \<Rightarrow> unit io" where
  "copyIntoCache keep dir [] = ok ()"
| "copyIntoCache keep dir (f # fs) =
     andThen (\<lambda>w. if keep \<and> readFile w (path_join dir (basename f)) \<noteq> None then ok () w
                   else copyFile f (path_join dir (basename f)) w)
       (\<lambda>_. copyIntoCache keep dir fs)"

definition copyNarinfoFilesToCache :: "env \<Rightarrow> string \<Rightarrow> string list \<Rightarrow> unit io" where
  "copyNarinfoFilesToCache E clientStateStorePath narinfoFilePaths =
     copyIntoCache (cacheKeepsExisting E) clientStateStorePath narinfoFilePaths"

section \<open>The commands\<close>

datatype SwitchMode = Immediate | NextReboot

record CommandItem =
  item :: StoreRoot

record LoadArchiveDeltaCommand = CommandItem +
  archivePath :: string
  deltaDependencies :: "StoreRoot list"
  partialNarinfos :: bool

record StoreSwitchCommand = CommandItem +
  mode :: SwitchMode

datatype Command = Load LoadArchiveDeltaCommand | Switch StoreSwitchCommand

record InstructionSharedArgs =
  instructionFolderPath :: string

record InstructionBuilderSharedArgs = InstructionSharedArgs +
  workdirArchivePath :: string
  workdirStorePath :: string

record InstructionExecutionSharedArgs = InstructionSharedArgs +
  storePath :: string
  clientStateStorePath :: string

subsection \<open>loadArchive.ts\<close>

definition digitChar :: "nat \<Rightarrow> char" where
  "digitChar n = ''0123456789'' ! n"

fun showNat :: "nat \<Rightarrow> string" where
  "showNat n = (if n < 10 then [digitChar n] else showNat (n div 10) @ [digitChar (n mod 10)])"

declare showNat.simps [simp del]

text \<open>
  The loop over \<^verbatim>\<open>deltaDependencyRevs\<close>: each revision is announced, built, and pushed
  with its build result.
\<close>

fun buildOldRevs ::
  "env \<Rightarrow> string \<Rightarrow> string \<Rightarrow> string \<Rightarrow> string list \<Rightarrow> ((string \<times> FlakeBuildResult) list) io" where
  "buildOldRevs E uri host store [] = ok []"
| "buildOldRevs E uri host store (r # rs) =
     andThen (emit (Progress (''Building revision '' @ r))) (\<lambda>_.
     andThen (buildSystemFlake E
                \<lparr>flakeGitUri = uri, storeAbsolutePath = store, hostname = host,
                 ref = None, revArg = Some r\<rparr>) (\<lambda>info.
     andThen (buildOldRevs E uri host store rs) (\<lambda>infos.
       ok ((r, info) # infos))))"

definition buildLoadArchiveDeltaCommand ::
  "env \<Rightarrow> string \<Rightarrow> string \<Rightarrow> string \<Rightarrow> string list \<Rightarrow> bool \<Rightarrow> string
     \<Rightarrow> InstructionBuilderSharedArgs \<Rightarrow> LoadArchiveDeltaCommand io" where
  "buildLoadArchiveDeltaCommand E archiveFolderName uri host deltaDependencyRevs partial newRev
       shared =
     andThen (emit (Progress ''Building previous revisions'')) (\<lambda>_.
     andThen (buildOldRevs E uri host (workdirStorePath shared) deltaDependencyRevs)
       (\<lambda>oldRevBuildInfos.
     andThen (emit (Progress ''Building new revision'')) (\<lambda>_.
     andThen (buildSystemFlake E
                \<lparr>flakeGitUri = uri, storeAbsolutePath = workdirStorePath shared, hostname = host,
                 ref = None, revArg = Some newRev\<rparr>) (\<lambda>newRevBuildInfo.
     andThen (emit (Progress ''Copying to archive'')) (\<lambda>_.
     andThen (call (CopyOutputToArchive (workdirStorePath shared) (workdirArchivePath shared)
                      (outputPath newRevBuildInfo))
                (\<lambda>w. copyOutputToArchive E w (workdirStorePath shared)
                        (workdirArchivePath shared) (outputPath newRevBuildInfo))) (\<lambda>_.
     andThen (emit (Progress ''Getting path info'')) (\<lambda>_.
     andThen (query (\<lambda>w. getStoreDeltaPathsDelta E w (workdirStorePath shared)
                            (map (\<lambda>info. outputPath (snd info)) oldRevBuildInfos)
                            (outputPath newRevBuildInfo))) (\<lambda>pathInfo.
     andThen (emit (Progress (showNat (length (added pathInfo)) @ '' paths added, with a total ''
                @ showNat (length (allResultingItems pathInfo)) @ '' store items.''))) (\<lambda>_.
     andThen (emit (Progress ''Building new archive'')) (\<lambda>_.
       let archiveFolderPath = path_join (instructionFolderPath shared) archiveFolderName in
     andThen (rm archiveFolderPath) (\<lambda>_.
       let infoItemPaths = (if partial then map path (added pathInfo)
                            else map path (allResultingItems pathInfo));
           dataItemPaths = map path (added pathInfo) in
     andThen (call (MakeArchiveSubset (workdirArchivePath shared) archiveFolderPath
                      infoItemPaths dataItemPaths)
                (\<lambda>w. makeArchiveSubset E w (workdirArchivePath shared) archiveFolderPath
                        infoItemPaths dataItemPaths)) (\<lambda>_.
       ok \<lparr>item = \<lparr>nixPath = outputPath newRevBuildInfo, gitRevision = newRev\<rparr>,
           archivePath = archiveFolderName,
           deltaDependencies =
             map (\<lambda>build. \<lparr>nixPath = outputPath (snd build), gitRevision = fst build\<rparr>)
               oldRevBuildInfos,
           partialNarinfos = partial\<rparr>))))))))))))"

definition storeArg :: "string \<Rightarrow> string option" where
  "storeArg sp = (if sp = ''/'' then None else Some sp)"

definition executeLoadArchiveDeltaCommand ::
  "env \<Rightarrow> LoadArchiveDeltaCommand \<Rightarrow> InstructionExecutionSharedArgs \<Rightarrow> unit io" where
  "executeLoadArchiveDeltaCommand E cmd shared =
     (let absoluteArchivePath = path_join (instructionFolderPath shared) (archivePath cmd) in
      andThen (getAbsoluteNarinfoListInDir absoluteArchivePath) (\<lambda>existingNarinfoFilePaths.
      andThen (query (\<lambda>w. getNarinfoFileListForNixPaths E w (storeArg (storePath shared))
                             (clientStateStorePath shared)
                             (map nixPath (deltaDependencies cmd)))) (\<lambda>narinfoFiles.
      andThen (copyFilesInto absoluteArchivePath narinfoFiles) (\<lambda>_.
      andThen (emit (ConsoleLog ''Copying nix store items to the store'')) (\<lambda>_.
      andThen (call (CopyArchiveToStore absoluteArchivePath (nixPath (item cmd))
                       (storeArg (storePath shared)))
                 (\<lambda>w. copyArchiveToStore E w absoluteArchivePath (nixPath (item cmd))
                         (storeArg (storePath shared)))) (\<lambda>_.
      andThen (emit (ConsoleLog ''Updating local config'')) (\<lambda>_.
        copyNarinfoFilesToCache E (clientStateStorePath shared) existingNarinfoFilePaths)))))))"

subsection \<open>The switch command\<close>

definition buildStoreSwitchCommand ::
  "env \<Rightarrow> string \<Rightarrow> string \<Rightarrow> string \<Rightarrow> SwitchMode \<Rightarrow> InstructionBuilderSharedArgs
     \<Rightarrow> StoreSwitchCommand io" where
  "buildStoreSwitchCommand E uri host revn m shared =
     andThen (emit (Progress ''Building switch command'')) (\<lambda>_.
     andThen (buildSystemFlake E
                \<lparr>flakeGitUri = uri, storeAbsolutePath = workdirStorePath shared, hostname = host,
                 ref = None, revArg = Some revn\<rparr>) (\<lambda>newRevBuildInfo.
       ok \<lparr>item = \<lparr>nixPath = outputPath newRevBuildInfo, gitRevision = revn\<rparr>, mode = m\<rparr>))"

definition executeStoreSwitchCommand ::
  "env \<Rightarrow> StoreSwitchCommand \<Rightarrow> InstructionExecutionSharedArgs \<Rightarrow> unit io" where
  "executeStoreSwitchCommand E args shared =
     call (MakeNewSystemGeneration ''/'' (nixPath (item args)) ''switch'')
       (\<lambda>w. makeNewSystemGeneration E w ''/'' (nixPath (item args)) ''switch'')"

section \<open>main.ts: the handler that applies an instruction file\<close>

text \<open>
  The handler of the subcommand \<^verbatim>\<open>dummy2\<close>. It has no \<^verbatim>\<open>try\<close>: a throw at any step ends
  the handler there. \<^verbatim>\<open>decompressInstructionDir\<close> gives the file system as the extraction
  leaves it; \<^verbatim>\<open>readDirInstruction\<close> and \<^verbatim>\<open>assertInstructionDirValid\<close> only read. The
  final \<^verbatim>\<open>rm\<close> has no \<^verbatim>\<open>force\<close>; the directory it removes is the one the handler's own
  \<^verbatim>\<open>mkdir\<close> made, and the model lets it succeed.
\<close>

definition decompress :: "env \<Rightarrow> string \<Rightarrow> string \<Rightarrow> unit io" where
  "decompress E destinationDir instructionPath w =
     (case decompressInstructionDir E w destinationDir instructionPath of
        Inl e \<Rightarrow>
          (Inl e, w\<lparr>trace := trace w @ [DecompressInstructionDir destinationDir instructionPath]\<rparr>)
      | Inr fs \<Rightarrow>
          (Inr (), w\<lparr>files := fs,
                     trace := trace w @ [DecompressInstructionDir destinationDir instructionPath]\<rparr>))"

fun consoleLogEach :: "string list \<Rightarrow> unit io" where
  "consoleLogEach [] = ok ()"
| "consoleLogEach (p # ps) = andThen (emit (ConsoleLog p)) (\<lambda>_. consoleLogEach ps)"

definition dummy2 :: "env \<Rightarrow> string \<Rightarrow> string \<Rightarrow> string \<Rightarrow> string \<Rightarrow> unit io" where
  "dummy2 E workdirPath0 instructionPath0 clientStateStorePath0 storePath0 =
     (let workdirPath = ensurePathAbsolute E workdirPath0;
          instructionPath = ensurePathAbsolute E instructionPath0;
          clientStatePath = ensurePathAbsolute E clientStateStorePath0;
          storeDir = ensurePathAbsolute E storePath0 in
      andThen (emit (Mkdir workdirPath)) (\<lambda>_.
      andThen (emit (ConsoleLog ''Decompressing instruction'')) (\<lambda>_.
      andThen (decompress E workdirPath instructionPath) (\<lambda>_.
      andThen (query (\<lambda>w. readDirInstruction E w workdirPath)) (\<lambda>instruction.
        if instructionKind instruction \<noteq> ''switch'' then throw InvalidInstructionKind
        else
      andThen (\<lambda>w. attempt (assertInstructionDirValid_call E w workdirPath) w) (\<lambda>_.
        let archiveDir = path_join workdirPath (itemArchivePath instruction) in
      andThen (getAbsoluteFilesListInDir archiveDir) (\<lambda>existingNarinfoFilePaths.
      andThen (consoleLogEach existingNarinfoFilePaths) (\<lambda>_.
      andThen (query (\<lambda>w. getNarinfoFileListForNixPaths E w (storeArg storeDir) clientStatePath
                             (map nixPath (instructionDeltaDependencies instruction))))
        (\<lambda>narinfoFiles.
      andThen (copyFilesInto archiveDir narinfoFiles) (\<lambda>_.
      andThen (emit (ConsoleLog ''Copying nix store items to the store'')) (\<lambda>_.
      andThen (call (CopyArchiveToStore archiveDir (itemItemPath instruction) (storeArg storeDir))
                 (\<lambda>w. copyArchiveToStore E w archiveDir (itemItemPath instruction)
                         (storeArg storeDir))) (\<lambda>_.
      andThen (emit (ConsoleLog ''Updating local config'')) (\<lambda>_.
      andThen (copyNarinfoFilesToCache E clientStatePath existingNarinfoFilePaths) (\<lambda>_.
      andThen (emit (ConsoleLog ''Cleaning up'')) (\<lambda>_.
        rm workdirPath)))))))))))))))"

section \<open>The delta engine\<close>

text \<open>
  Modelled from the spec: \<^verbatim>\<open>computeDelta\<close> (\<^verbatim>\<open>getStoreDeltaPathsDelta\<close> of \<^verbatim>\<open>utils/nixStore\<close>,
  which is not among the sources). "Let \<^verbatim>\<open>F\<close> be the union of \<^verbatim>\<open>closure(r)\<close> for \<^verbatim>\<open>r\<close> in
  \<^verbatim>\<open>fromRoots\<close> and \<^verbatim>\<open>T = closure(toRoot)\<close>, computed via \<^verbatim>\<open>queryPathInfo\<close>. Then
  \<^verbatim>\<open>added = [p in T if p.path not in F]\<close>, \<^verbatim>\<open>allResultingItems = T\<close>. Both lists are
  sorted topologically (a path appears after all of its references); ties are broken by
  lexicographic order on \<^verbatim>\<open>path\<close>", both are "deduplicated by \<^verbatim>\<open>path\<close>", and a cycle is
  \<^verbatim>\<open>ClosureCycle\<close>. The adapter operation \<^verbatim>\<open>queryPathInfo\<close> is the parameter \<open>qpi\<close>.
\<close>

definition closure ::
  "(string \<Rightarrow> string list \<Rightarrow> error + PathInfo list) \<Rightarrow> string \<Rightarrow> string \<Rightarrow> error + PathInfo list" where
  "closure qpi storeDir root = qpi storeDir [root]"

fun fromClosures ::
  "(string \<Rightarrow> string list \<Rightarrow> error + PathInfo list) \<Rightarrow> string \<Rightarrow> string list \<Rightarrow> error + string list" where
  "fromClosures qpi storeDir [] = Inr []"
| "fromClosures qpi storeDir (r # rs) =
     (case closure qpi storeDir r of
        Inl e \<Rightarrow> Inl e
      | Inr c \<Rightarrow>
          (case fromClosures qpi storeDir rs of
             Inl e \<Rightarrow> Inl e
           | Inr cs \<Rightarrow> Inr (map path c @ cs)))"

fun dedupByPath :: "string list \<Rightarrow> PathInfo list \<Rightarrow> PathInfo list" where
  "dedupByPath seen [] = []"
| "dedupByPath seen (p # ps) =
     (if path p \<in> set seen then dedupByPath seen ps else p # dedupByPath (path p # seen) ps)"

text \<open>An item can be emitted when none of its references, itself apart, is still waiting.\<close>

definition ready :: "PathInfo list \<Rightarrow> PathInfo \<Rightarrow> bool" where
  "ready waiting p = (\<forall>r \<in> set (references p). r = path p \<or> r \<notin> set (map path waiting))"

fun minByPath :: "PathInfo \<Rightarrow> PathInfo list \<Rightarrow> PathInfo" where
  "minByPath p [] = p"
| "minByPath p (q # qs) = minByPath (if path q < path p then q else p) qs"

definition pickReady :: "PathInfo list \<Rightarrow> PathInfo option" where
  "pickReady waiting =
     (case filter (ready waiting) waiting of [] \<Rightarrow> None | c # cs \<Rightarrow> Some (minByPath c cs))"

text \<open>
  One round per item: each round emits the least ready item. The first argument only
  counts the rounds; \<open>topoSort\<close> starts it at the list itself, so that it is used up
  exactly when nothing is waiting.
\<close>

fun topoRounds :: "PathInfo list \<Rightarrow> PathInfo list \<Rightarrow> error + PathInfo list" where
  "topoRounds [] waiting = Inr []"
| "topoRounds (k # ks) waiting =
     (case pickReady waiting of
        None \<Rightarrow> Inl ClosureCycle
      | Some p \<Rightarrow>
          (case topoRounds ks (remove1 p waiting) of
             Inl e \<Rightarrow> Inl e
           | Inr rest \<Rightarrow> Inr (p # rest)))"

definition topoSort :: "PathInfo list \<Rightarrow> error + PathInfo list" where
  "topoSort ps = topoRounds ps ps"

definition computeDelta ::
  "(string \<Rightarrow> string list \<Rightarrow> error + PathInfo list) \<Rightarrow> string \<Rightarrow> string list \<Rightarrow> string
     \<Rightarrow> error + Delta" where
  "computeDelta qpi storeDir fromRoots toRoot =
     (case fromClosures qpi storeDir fromRoots of
        Inl e \<Rightarrow> Inl e
      | Inr F \<Rightarrow>
          (case closure qpi storeDir toRoot of
             Inl e \<Rightarrow> Inl e
           | Inr c \<Rightarrow>
               (case topoSort (dedupByPath [] c) of
                  Inl e \<Rightarrow> Inl e
                | Inr T \<Rightarrow> Inr \<lparr>added = [p \<leftarrow> T. path p \<notin> set F], allResultingItems = T\<rparr>)))"

section \<open>Instruction validation\<close>

text \<open>
  The command schemas are those of the sources (\<^verbatim>\<open>loadArchiveDeltaCommandSchema\<close>,
  \<^verbatim>\<open>storeSwitchCommandSchema\<close>). Modelled from the spec: the schema \<^verbatim>\<open>storeRoot\<close> of
  \<^verbatim>\<open>instructions/schemas\<close>, which is not among the sources: a StoreRoot is the pair
  \<^verbatim>\<open>(nixPath, gitRevision)\<close> of strings.
\<close>

fun storeRoot :: "json \<Rightarrow> StoreRoot option" where
  "storeRoot (JObject fs) =
     (case (map_of fs ''nixPath'', map_of fs ''gitRevision'') of
        (Some (JString p), Some (JString g)) \<Rightarrow> Some \<lparr>nixPath = p, gitRevision = g\<rparr>
      | _ \<Rightarrow> None)"
| "storeRoot _ = None"

fun allSome :: "'a option list \<Rightarrow> 'a list option" where
  "allSome [] = Some []"
| "allSome (None # xs) = None"
| "allSome (Some x # xs) = (case allSome xs of None \<Rightarrow> None | Some ys \<Rightarrow> Some (x # ys))"

fun loadArchiveDeltaCommandSchema :: "json \<Rightarrow> LoadArchiveDeltaCommand option" where
  "loadArchiveDeltaCommandSchema (JObject fs) =
     (case (map_of fs ''kind'', map_of fs ''archivePath'', map_of fs ''deltaDependencies'',
            map_of fs ''partialNarinfos'', map_of fs ''item'') of
        (Some (JString k), Some (JString ap), Some (JArray ds), Some (JBool pn), Some it) \<Rightarrow>
          (case (k = ''load'', allSome (map storeRoot ds), storeRoot it) of
             (True, Some deps, Some r) \<Rightarrow>
               Some \<lparr>item = r, archivePath = ap, deltaDependencies = deps, partialNarinfos = pn\<rparr>
           | _ \<Rightarrow> None)
      | _ \<Rightarrow> None)"
| "loadArchiveDeltaCommandSchema _ = None"

definition modeSchema :: "string \<Rightarrow> SwitchMode option" where
  "modeSchema m =
     (if m = ''immediate'' then Some Immediate
      else if m = ''next-reboot'' then Some NextReboot
      else None)"

fun storeSwitchCommandSchema :: "json \<Rightarrow> StoreSwitchCommand option" where
  "storeSwitchCommandSchema (JObject fs) =
     (case (map_of fs ''kind'', map_of fs ''item'', map_of fs ''mode'') of
        (Some (JString k), Some it, Some (JString m)) \<Rightarrow>
          (case (k = ''switch'', storeRoot it, modeSchema m) of
             (True, Some r, Some md) \<Rightarrow> Some \<lparr>item = r, mode = md\<rparr>
           | _ \<Rightarrow> None)
      | _ \<Rightarrow> None)"
| "storeSwitchCommandSchema _ = None"

text \<open>
  Modelled from the spec: \<^verbatim>\<open>assertInstructionDirValid\<close> of \<^verbatim>\<open>utils/instructions\<close>, which
  is not among the sources (\<^verbatim>\<open>main.ts\<close> only calls it). It "parses \<^verbatim>\<open>instruction.json\<close>
  against the command schema; verifies every \<^verbatim>\<open>Load.archivePath\<close> exists as a directory;
  verifies at most one \<^verbatim>\<open>Switch\<close> and that it is last; verifies every StoreRoot referenced
  as \<^verbatim>\<open>deltaDependencies\<close> is either declared as the \<^verbatim>\<open>item\<close> of an earlier \<^verbatim>\<open>Load\<close> or
  nothing. Any violation is \<^verbatim>\<open>InvalidInstruction { reason }\<close>"; "the discriminator is
  authoritative; unknown \<^verbatim>\<open>kind\<close> values cause \<^verbatim>\<open>UnknownCommandKind\<close>". The document is
  \<^verbatim>\<open>{ "kind": "switch", "commands": [ ... ] }\<close>. The spec gives one reason text, "switch
  must be last"; the other texts here only name the check that failed. The last check
  accepts every dependency (declared earlier, or presumed present), so it rejects nothing.
\<close>

fun parseCommand :: "json \<Rightarrow> error + Command" where
  "parseCommand (JObject fs) =
     (case map_of fs ''kind'' of
        Some (JString k) \<Rightarrow>
          (if k = ''load'' then
             (case loadArchiveDeltaCommandSchema (JObject fs) of
                None \<Rightarrow> Inl (InvalidInstruction ''load command does not match the schema'')
              | Some c \<Rightarrow> Inr (Load c))
           else if k = ''switch'' then
             (case storeSwitchCommandSchema (JObject fs) of
                None \<Rightarrow> Inl (InvalidInstruction ''switch command does not match the schema'')
              | Some c \<Rightarrow> Inr (Switch c))
           else Inl (UnknownCommandKind k))
      | _ \<Rightarrow> Inl (InvalidInstruction ''command without kind''))"
| "parseCommand _ = Inl (InvalidInstruction ''command is not an object'')"

fun parseCommands :: "json list \<Rightarrow> error + Command list" where
  "parseCommands [] = Inr []"
| "parseCommands (j # js) =
     (case parseCommand j of
        Inl e \<Rightarrow> Inl e
      | Inr c \<Rightarrow> (case parseCommands js of Inl e \<Rightarrow> Inl e | Inr cs \<Rightarrow> Inr (c # cs)))"

fun parseInstruction :: "json \<Rightarrow> error + Command list" where
  "parseInstruction (JObject fs) =
     (case (map_of fs ''kind'', map_of fs ''commands'') of
        (Some (JString k), Some (JArray js)) \<Rightarrow>
          (if k = ''switch'' then parseCommands js
           else Inl (InvalidInstruction ''instruction kind''))
      | _ \<Rightarrow> Inl (InvalidInstruction ''instruction does not match the schema''))"
| "parseInstruction _ = Inl (InvalidInstruction ''instruction is not an object'')"

fun isSwitch :: "Command \<Rightarrow> bool" where
  "isSwitch (Switch c) = True"
| "isSwitch (Load c) = False"

fun archivePathsOf :: "Command list \<Rightarrow> string list" where
  "archivePathsOf [] = []"
| "archivePathsOf (Load c # cs) = archivePath c # archivePathsOf cs"
| "archivePathsOf (Switch c # cs) = archivePathsOf cs"

definition validateCommands :: "(string \<Rightarrow> bool) \<Rightarrow> string \<Rightarrow> Command list \<Rightarrow> error option" where
  "validateCommands isDir dir cmds =
     (if \<not> list_all (\<lambda>a. isDir (path_join dir a)) (archivePathsOf cmds)
        then Some (InvalidInstruction ''archive directory missing'')
      else if 1 < length (filter isSwitch cmds)
        then Some (InvalidInstruction ''more than one switch'')
      else if filter isSwitch cmds \<noteq> [] \<and> \<not> isSwitch (last cmds)
        then Some (InvalidInstruction ''switch must be last'')
      else None)"

definition assertInstructionDirValid :: "env \<Rightarrow> string \<Rightarrow> unit io" where
  "assertInstructionDirValid E dir w =
     (case readFile w (path_join dir ''instruction.json'') of
        None \<Rightarrow> (Inl (InvalidInstruction ''instruction.json missing''), w)
      | Some text \<Rightarrow>
          (case JSON_parse E text of
             None \<Rightarrow> (Inl (InvalidInstruction ''instruction.json is not JSON''), w)
           | Some j \<Rightarrow>
               (case parseInstruction j of
                  Inl e \<Rightarrow> (Inl e, w)
                | Inr cmds \<Rightarrow>
                    (case validateCommands (isDirectory E w) dir cmds of
                       Some e \<Rightarrow> (Inl e, w)
                     | None \<Rightarrow> (Inr (), w)))))"

section \<open>Reading traces\<close>

definition newEvents :: "world \<Rightarrow> world \<Rightarrow> event list" where
  "newEvents w w' = drop (length (trace w)) (trace w')"

fun isStoreBuild :: "event \<Rightarrow> bool" where
  "isStoreBuild (Exec c) = (take 9 c = ''nix build'')"
| "isStoreBuild _ = False"

fun isRm :: "event \<Rightarrow> bool" where
  "isRm (Rm d) = True"
| "isRm _ = False"

text \<open>
  Two worlds are related by \<open>quiet\<close> when the later one still has every file of the
  earlier one and its trace extends the earlier trace by events none of which is a removal.
  A computation is \<open>quietly\<close> run when this holds for every outcome, and \<open>failsQuietly\<close>
  when it holds for every failing outcome. \<open>tracks\<close>: the trace is only extended.
  \<open>keepsFiles\<close>: the files are those of the start.
  \<open>cleansUp dir\<close>: a successful run ends with the removal of \<open>dir\<close> and leaves no file
  under it.
\<close>

definition quiet :: "world \<Rightarrow> world \<Rightarrow> bool" where
  "quiet w w' =
     ((\<forall>q. readFile w q \<noteq> None \<longrightarrow> readFile w' q \<noteq> None)
      \<and> (\<exists>evs. trace w' = trace w @ evs \<and> filter isRm evs = []))"

definition quietly :: "'a io \<Rightarrow> bool" where
  "quietly m = (\<forall>w r w'. m w = (r, w') \<longrightarrow> quiet w w')"

definition failsQuietly :: "'a io \<Rightarrow> bool" where
  "failsQuietly m = (\<forall>w e w'. m w = (Inl e, w') \<longrightarrow> quiet w w')"

definition tracks :: "'a io \<Rightarrow> bool" where
  "tracks m = (\<forall>w r w'. m w = (r, w') \<longrightarrow> (\<exists>evs. trace w' = trace w @ evs))"


definition cleansUp :: "string \<Rightarrow> unit io \<Rightarrow> bool" where
  "cleansUp dir m =
     (\<forall>w w'. m w = (Inr (), w') \<longrightarrow>
        (\<exists>evs. trace w' = trace w @ evs @ [ConsoleLog ''Cleaning up'', Rm dir])
        \<and> (\<forall>q. isUnder dir q \<longrightarrow> readFile w' q = None))"

text \<open>
  The steps of \<open>dummy2\<close> from \<^verbatim>\<open>readDirInstruction\<close> on, with the paths already made
  absolute: the proofs about the handler treat the extraction and what follows it apart.
\<close>

definition dummy2_rest :: "env \<Rightarrow> string \<Rightarrow> string \<Rightarrow> string \<Rightarrow> unit io" where
  "dummy2_rest E workdirPath clientStatePath storeDir =
     andThen (query (\<lambda>w. readDirInstruction E w workdirPath)) (\<lambda>instruction.
       if instructionKind instruction \<noteq> ''switch'' then throw InvalidInstructionKind
       else
     andThen (\<lambda>w. attempt (assertInstructionDirValid_call E w workdirPath) w) (\<lambda>_.
     andThen (getAbsoluteFilesListInDir (path_join workdirPath (itemArchivePath instruction)))
       (\<lambda>existingNarinfoFilePaths.
     andThen (consoleLogEach existingNarinfoFilePaths) (\<lambda>_.
     andThen (query (\<lambda>w. getNarinfoFileListForNixPaths E w (storeArg storeDir) clientStatePath
                            (map nixPath (instructionDeltaDependencies instruction))))
       (\<lambda>narinfoFiles.
     andThen (copyFilesInto (path_join workdirPath (itemArchivePath instruction)) narinfoFiles)
       (\<lambda>_.
     andThen (emit (ConsoleLog ''Copying nix store items to the store'')) (\<lambda>_.
     andThen (call (CopyArchiveToStore (path_join workdirPath (itemArchivePath instruction))
                      (itemItemPath instruction) (storeArg storeDir))
                (\<lambda>w. copyArchiveToStore E w (path_join workdirPath (itemArchivePath instruction))
                        (itemItemPath instruction) (storeArg storeDir))) (\<lambda>_.
     andThen (emit (ConsoleLog ''Updating local config'')) (\<lambda>_.
     andThen (copyNarinfoFilesToCache E clientStatePath existingNarinfoFilePaths) (\<lambda>_.
     andThen (emit (ConsoleLog ''Cleaning up'')) (\<lambda>_.
       rm workdirPath)))))))))))"

section \<open>A small concrete setting\<close>

text \<open>
  One flake \<^verbatim>\<open>flake\<close> whose default branch is at revision \<^verbatim>\<open>r0\<close> and declares the host
  \<^verbatim>\<open>testvm\<close>; the outputs of the external commands are given by name and parsed by
  \<open>demoParse\<close>. On the target, the archive of the instruction ships two info files, the
  store holds the info file of one dependency, and the cache holds one older entry.
\<close>

definition demoExec :: "world \<Rightarrow> string \<Rightarrow> exec_result" where
  "demoExec w cmd =
     (if cmd = ''nix flake info --json flake''
        then \<lparr>failed = False, stdout = ''flake-info'', stderr = []\<rparr>
      else if cmd = ''nix flake show --json flake?rev=r0''
        then \<lparr>failed = False, stdout = ''flake-show'', stderr = []\<rparr>
      else if cmd = ''nix build --json --no-link --store /build/store flake?rev=r0#nixosConfigurations.testvm.config.system.build.toplevel''
        then \<lparr>failed = False, stdout = ''build-r0'', stderr = []\<rparr>
      else \<lparr>failed = True, stdout = [], stderr = ''error: command failed''\<rparr>)"

definition demoSwitchJson :: json where
  "demoSwitchJson =
     JObject [(''kind'', JString ''switch''),
              (''item'', JObject [(''nixPath'', JString ''/nix/store/top-r0''),
                                  (''gitRevision'', JString ''r0'')]),
              (''mode'', JString ''immediate'')]"

definition demoLoadJson :: json where
  "demoLoadJson =
     JObject [(''kind'', JString ''load''),
              (''archivePath'', JString ''archive''),
              (''deltaDependencies'', JArray []),
              (''partialNarinfos'', JBool False),
              (''item'', JObject [(''nixPath'', JString ''/nix/store/top-r0''),
                                  (''gitRevision'', JString ''r0'')])]"

definition demoSwitchFirst :: json where
  "demoSwitchFirst =
     JObject [(''kind'', JString ''switch''), (''commands'', JArray [demoSwitchJson, demoLoadJson])]"

definition demoSwitchLast :: json where
  "demoSwitchLast =
     JObject [(''kind'', JString ''switch''), (''commands'', JArray [demoLoadJson, demoSwitchJson])]"

definition demoSwitchCommand :: StoreSwitchCommand where
  "demoSwitchCommand =
     \<lparr>item = \<lparr>nixPath = ''/nix/store/top-r0'', gitRevision = ''r0''\<rparr>, mode = Immediate\<rparr>"

definition demoLoadCommand :: LoadArchiveDeltaCommand where
  "demoLoadCommand =
     \<lparr>item = \<lparr>nixPath = ''/nix/store/top-r0'', gitRevision = ''r0''\<rparr>,
      archivePath = ''archive'', deltaDependencies = [], partialNarinfos = False\<rparr>"

definition demoParse :: "string \<Rightarrow> json option" where
  "demoParse s =
     (if s = ''flake-info'' then Some (JObject [(''revision'', JString ''r0'')])
      else if s = ''flake-show''
        then Some (JObject [(''nixosConfigurations'', JObject [(''testvm'', JObject [])])])
      else if s = ''build-r0''
        then Some (JArray [JObject [(''drvPath'', JString ''/nix/store/top-r0.drv''),
                                    (''outputs'', JObject [(''out'', JString ''/nix/store/top-r0'')])]])
      else if s = ''switch-then-load'' then Some demoSwitchFirst
      else if s = ''load-then-switch'' then Some demoSwitchLast
      else None)"

definition demoDelta :: Delta where
  "demoDelta =
     \<lparr>added = [\<lparr>path = ''/nix/store/b-top'', narHash = ''hb'', narSize = 2,
                 references = [''/nix/store/a-lib'']\<rparr>],
      allResultingItems =
        [\<lparr>path = ''/nix/store/a-lib'', narHash = ''ha'', narSize = 1, references = []\<rparr>,
         \<lparr>path = ''/nix/store/b-top'', narHash = ''hb'', narSize = 2,
          references = [''/nix/store/a-lib'']\<rparr>]\<rparr>"

definition demoFiles :: "(string \<times> string) list" where
  "demoFiles =
     [(''/work/archive/h1.narinfo'', ''A''),
      (''/work/archive/h2.narinfo'', ''N''),
      (''/work/archive/nar1'', ''data''),
      (''/store/h1.narinfo'', ''B''),
      (''/store/h0.narinfo'', ''Y''),
      (''/cache/h0.narinfo'', ''Z'')]"

definition demoEnv :: env where
  "demoEnv =
     \<lparr>execaCommand = demoExec,
      JSON_parse = demoParse,
      js_String = (\<lambda>j. ''[object Object]''),
      copyOutputToArchive = (\<lambda>w s a i. None),
      getStoreDeltaPathsDelta = (\<lambda>w s fs t. Inr demoDelta),
      makeArchiveSubset = (\<lambda>w a d is ds. None),
      getNarinfoFileListForNixPaths = (\<lambda>w s c ps. Inr [''/store/h1.narinfo'']),
      copyArchiveToStore = (\<lambda>w a i s. None),
      makeNewSystemGeneration = (\<lambda>w s i a. None),
      decompressInstructionDir = (\<lambda>w d i. Inr demoFiles),
      readDirInstruction =
        (\<lambda>w d. Inr \<lparr>instructionKind = ''switch'', itemArchivePath = ''archive'',
                     itemItemPath = ''/nix/store/b-top'',
                     instructionDeltaDependencies =
                       [\<lparr>nixPath = ''/nix/store/a-lib'', gitRevision = ''r0''\<rparr>]\<rparr>),
      assertInstructionDirValid_call = (\<lambda>w d. None),
      ensurePathAbsolute = (\<lambda>p. p),
      isDirectory = (\<lambda>w d. True),
      cacheKeepsExisting = False\<rparr>"

text \<open>
  The same target, where the dependency's info file has a name the archive does not ship,
  and where the cache keeps the entries it holds.
\<close>

definition demoEnvDisjoint :: env where
  "demoEnvDisjoint =
     demoEnv\<lparr>getNarinfoFileListForNixPaths := (\<lambda>w s c ps. Inr [''/store/h0.narinfo'']),
             cacheKeepsExisting := True\<rparr>"

text \<open>The same target, where the store tool refuses the import.\<close>

definition demoEnvImportFails :: env where
  "demoEnvImportFails =
     demoEnv\<lparr>copyArchiveToStore := (\<lambda>w a i s. Some (ExternalToolFailure ''hash mismatch''))\<rparr>"



text \<open>The target of \<open>demoEnv\<close>, with a cache that keeps the entries it holds.\<close>

definition demoEnvKeep :: env where
  "demoEnvKeep = demoEnv\<lparr>cacheKeepsExisting := True\<rparr>"

definition demoWorld :: world where
  "demoWorld = \<lparr>files = demoFiles, trace = []\<rparr>"

definition demoSwitchFirstWorld :: world where
  "demoSwitchFirstWorld = \<lparr>files = [(''/work/instruction.json'', ''switch-then-load'')], trace = []\<rparr>"

definition demoSwitchLastWorld :: world where
  "demoSwitchLastWorld = \<lparr>files = [(''/work/instruction.json'', ''load-then-switch'')], trace = []\<rparr>"

definition emptyWorld :: world where
  "emptyWorld = \<lparr>files = [], trace = []\<rparr>"

definition demoLoad :: LoadArchiveDeltaCommand where
  "demoLoad =
     \<lparr>item = \<lparr>nixPath = ''/nix/store/b-top'', gitRevision = ''r1''\<rparr>,
      archivePath = ''archive'',
      deltaDependencies = [\<lparr>nixPath = ''/nix/store/a-lib'', gitRevision = ''r0''\<rparr>],
      partialNarinfos = False\<rparr>"

definition demoExecShared :: InstructionExecutionSharedArgs where
  "demoExecShared =
     \<lparr>instructionFolderPath = ''/work'', storePath = ''/'', clientStateStorePath = ''/cache''\<rparr>"

text \<open>A target whose client-state cache is the archive directory of the instruction.\<close>

definition demoExecSharedArchive :: InstructionExecutionSharedArgs where
  "demoExecSharedArchive =
     \<lparr>instructionFolderPath = ''/work'', storePath = ''/'',
      clientStateStorePath = ''/work/archive''\<rparr>"

definition demoBuildShared :: InstructionBuilderSharedArgs where
  "demoBuildShared =
     \<lparr>instructionFolderPath = ''/build/instruction'', workdirArchivePath = ''/build/archive'',
      workdirStorePath = ''/build/store''\<rparr>"

definition demoQueryPathInfo :: "string \<Rightarrow> string list \<Rightarrow> error + PathInfo list" where
  "demoQueryPathInfo storeDir roots =
     (if roots = [''/nix/store/b-top''] then Inr (rev (allResultingItems demoDelta))
      else if roots = [''/nix/store/a-lib''] then Inr [hd (allResultingItems demoDelta)]
      else Inl (ExternalToolFailure ''path is not valid''))"

section \<open>Sequencing, paths and the copy loop\<close>

lemma andThen_Inr: "andThen m f w = (Inr b, w') \<longleftrightarrow> (\<exists>a w1. m w = (Inr a, w1) \<and> f a w1 = (Inr b, w'))"
  by (auto simp: andThen_def split: prod.splits sum.splits)

lemma andThen_cases:
  assumes "andThen m f w = (r, w')"
  obtains (fails) e where "m w = (Inl e, w')" "r = Inl e"
        | (continues) a w1 where "m w = (Inr a, w1)" "f a w1 = (r, w')"
  using assms by (auto simp: andThen_def split: prod.splits sum.splits)

subsection \<open>Paths\<close>










lemma basename_no_sep: "CHR ''/'' \<notin> set (basename p)"
proof -
  have "\<forall>c \<in> set (takeWhile (\<lambda>c. c \<noteq> CHR ''/'') xs). c \<noteq> CHR ''/''" for xs
    by (auto dest: set_takeWhileD)
  then show ?thesis by (auto simp: basename_def)
qed





lemma isNarinfo_proper:
  assumes "isNarinfo p" "CHR ''/'' \<notin> set p"
  shows "properName p"
proof -
  have "length (drop (length p - 8) p) = 8" using assms(1) by (simp add: isNarinfo_def)
  then have "8 \<le> length p" by simp
  then have "p \<noteq> []" "p \<noteq> ''.''" "p \<noteq> ''..''" by auto
  then show ?thesis using assms(2) by (simp add: properName_def)
qed

subsection \<open>Files and the copy loops\<close>

lemma readFile_trace_update [simp]: "readFile (w\<lparr>trace := t\<rparr>) q = readFile w q"
  by (simp add: readFile_def)

lemma newEvents_append: "trace w' = trace w @ evs \<Longrightarrow> newEvents w w' = evs"
  by (simp add: newEvents_def)




lemma copyFilesInto_eq: "copyFilesInto dir fs = copyIntoCache False dir fs"
  by (induction fs) simp_all









section \<open>The hostname check of buildSystemFlake\<close>

lemma getRevisionFromRef_world:
  "getRevisionFromRef E uri r w = (res, w') \<Longrightarrow>
     w' = w\<lparr>trace := trace w @ [Exec (flakeInfoCommand uri r)]\<rparr>"
  by (auto simp: getRevisionFromRef_def andThen_def execa_def ok_def throw_def
           split: if_splits option.splits json.splits)

lemma getFlakeInfo_world:
  "getFlakeInfo E uri g w = (res, w') \<Longrightarrow>
     w' = w\<lparr>trace := trace w @ [Exec (flakeShowCommand E uri g)]\<rparr>"
  by (auto simp: getFlakeInfo_def andThen_def execa_def ok_def throw_def
           split: if_splits option.splits)

lemma getFlakeHostnames_world:
  "getFlakeHostnames E uri g w = (res, w') \<Longrightarrow>
     w' = w\<lparr>trace := trace w @ [Exec (flakeShowCommand E uri g)]\<rparr>"
  by (auto simp: getFlakeHostnames_def andThen_def ok_def throw_def
           dest!: getFlakeInfo_world split: prod.splits sum.splits option.splits)

lemma flakeInfo_not_build: "\<not> isStoreBuild (Exec (flakeInfoCommand uri r))"
  by (simp add: flakeInfoCommand_def)

lemma flakeShow_not_build: "\<not> isStoreBuild (Exec (flakeShowCommand E uri r))"
  by (simp add: flakeShowCommand_def)

text \<open>
  C6. When the revision of the flake has been resolved and its configurations enumerated,
  and the requested hostname is not among them, \<open>buildSystemFlake\<close> fails with
  \<open>UnknownHostname\<close>, whose message lists the available hostnames. The only commands run
  are \<^verbatim>\<open>nix flake info\<close> and \<^verbatim>\<open>nix flake show\<close>: no \<^verbatim>\<open>nix build\<close> is invoked.
\<close>

theorem buildSystemFlake_unknown_hostname:
  assumes "getRevisionFromRef E (flakeGitUri args) (ref args) w = (Inr gitRev, w1)"
    and "getFlakeHostnames E (flakeGitUri args) gitRev w1 = (Inr hostnames, w2)"
    and "hostname args \<notin> set hostnames"
  shows "buildSystemFlake E args w = (Inl (UnknownHostname (hostname args) hostnames), w2)
       \<and> error_message (UnknownHostname (hostname args) hostnames)
           = ''No flake configuration found for hostname: '' @ hostname args
               @ ''. Available hostnames: '' @ joinStrings '', '' hostnames
       \<and> newEvents w w2 = [Exec (flakeInfoCommand (flakeGitUri args) (ref args)),
                            Exec (flakeShowCommand E (flakeGitUri args) gitRev)]
       \<and> filter isStoreBuild (newEvents w w2) = []"
proof -
  have r: "buildSystemFlake E args w = (Inl (UnknownHostname (hostname args) hostnames), w2)"
    using assms by (simp add: buildSystemFlake_def andThen_def throw_def)
  have t1: "trace w1 = trace w @ [Exec (flakeInfoCommand (flakeGitUri args) (ref args))]"
    using getRevisionFromRef_world[OF assms(1)] by simp
  have t2: "trace w2 = trace w1 @ [Exec (flakeShowCommand E (flakeGitUri args) gitRev)]"
    using getFlakeHostnames_world[OF assms(2)] by simp
  have n: "newEvents w w2 = [Exec (flakeInfoCommand (flakeGitUri args) (ref args)),
                            Exec (flakeShowCommand E (flakeGitUri args) gitRev)]"
    by (simp add: newEvents_def t1 t2)
  show ?thesis using r n flakeInfo_not_build flakeShow_not_build by simp
qed

theorem buildSystemFlake_unknown_hostname_witness:
  "getRevisionFromRef demoEnv ''flake'' None emptyWorld
     = (Inr (Some (JString ''r0'')), \<lparr>files = [], trace = [Exec ''nix flake info --json flake'']\<rparr>)
   \<and> getFlakeHostnames demoEnv ''flake'' (Some (JString ''r0''))
        \<lparr>files = [], trace = [Exec ''nix flake info --json flake'']\<rparr>
     = (Inr [''testvm''],
        \<lparr>files = [], trace = [Exec ''nix flake info --json flake'',
                              Exec ''nix flake show --json flake?rev=r0'']\<rparr>)
   \<and> ''ghost'' \<notin> set [''testvm'']
   \<and> buildSystemFlake demoEnv
        \<lparr>flakeGitUri = ''flake'', storeAbsolutePath = ''/build/store'', hostname = ''ghost'',
         ref = None, revArg = Some ''r1''\<rparr> emptyWorld
     = (Inl (UnknownHostname ''ghost'' [''testvm'']),
        \<lparr>files = [], trace = [Exec ''nix flake info --json flake'',
                              Exec ''nix flake show --json flake?rev=r0'']\<rparr>)
   \<and> error_message (UnknownHostname ''ghost'' [''testvm''])
     = ''No flake configuration found for hostname: ghost. Available hostnames: testvm''"
proof -
  let ?args = "\<lparr>flakeGitUri = ''flake'', storeAbsolutePath = ''/build/store'',
                 hostname = ''ghost'', ref = None, revArg = Some ''r1''\<rparr>"
  let ?w1 = "\<lparr>files = [], trace = [Exec ''nix flake info --json flake'']\<rparr>"
  let ?w2 = "\<lparr>files = [], trace = [Exec ''nix flake info --json flake'',
                                      Exec ''nix flake show --json flake?rev=r0'']\<rparr>"
  have h1: "getRevisionFromRef demoEnv (flakeGitUri ?args) (ref ?args) emptyWorld
              = (Inr (Some (JString ''r0'')), ?w1)"
    by (simp add: getRevisionFromRef_def flakeInfoCommand_def andThen_def execa_def ok_def
          demoEnv_def demoExec_def demoParse_def emptyWorld_def)
  have h2: "getFlakeHostnames demoEnv (flakeGitUri ?args) (Some (JString ''r0'')) ?w1
              = (Inr [''testvm''], ?w2)"
    by (simp add: getFlakeHostnames_def getFlakeInfo_def flakeShowCommand_def andThen_def
          execa_def ok_def demoEnv_def demoExec_def demoParse_def)
  have h3: "hostname ?args \<notin> set [''testvm'']" by simp
  show ?thesis
    using buildSystemFlake_unknown_hostname[OF h1 h2 h3] h1 h2 by simp
qed

section \<open>Evaluating the concrete setting\<close>

lemmas demo_defs = demoEnv_def demoExec_def demoParse_def emptyWorld_def demoBuildShared_def
  demoDelta_def demoWorld_def demoFiles_def demoLoad_def demoExecShared_def demoEnvDisjoint_def
  demoEnvImportFails_def demoSwitchFirstWorld_def demoSwitchLastWorld_def demoEnvKeep_def
  demoExecSharedArchive_def


lemmas io_defs = andThen_def ok_def throw_def emit_def call_def query_def rm_def execa_def
  attempt_def

lemmas path_defs = path_join_def normalizePath_def normalizeString_def normSegments_def
  splitPath_def normStep_def basename_def properName_def dirPrefix_def inDir_def isUnder_def
  sameDirectory_def

lemmas fs_defs = getAbsoluteNarinfoListInDir_def getAbsoluteFilesListInDir_def isNarinfo_def
  copyFile_def readFile_def copyNarinfoFilesToCache_def storeArg_def

lemmas flake_defs = buildSystemFlake_def getRevisionFromRef_def getFlakeHostnames_def
  getFlakeInfo_def flakeInfoCommand_def flakeShowCommand_def nixBuildCommand_def

lemma showNat_small [simp]: "n < 10 \<Longrightarrow> showNat n = [digitChar n]"
  by (simp add: showNat.simps)

text \<open>
  \<^verbatim>\<open>path.join\<close> normalises: a trailing or doubled separator in the directory, and
  \<^verbatim>\<open>.\<close> and \<^verbatim>\<open>..\<close> segments, do not change the file that is named.
\<close>

lemma path_join_examples:
  "path_join ''/work/'' ''archive'' = ''/work/archive''"
  "path_join ''/work'' ''archive/'' = ''/work/archive/''"
  "path_join ''/work//x/..'' ''./archive'' = ''/work/archive''"
  "path_join ''/work'' ''../x'' = ''/x''"
  "path_join ''a'' ''../../b'' = ''../b''"
  "path_join [] [] = ''.''"
  "basename ''/a/b/'' = ''b''"
  "inDir ''/work/archive/'' ''/work/archive/h1.narinfo''"
  "sameDirectory ''/work/archive/'' ''/work//archive''"
  "\<not> inDir ''/work'' ''/work/archive/h1.narinfo''"
  by (simp_all add: path_defs)

lemma snapshot_trailing_separator:
  "getAbsoluteNarinfoListInDir (path_join ''/work/'' ''archive'') demoWorld
     = (Inr [''/work/archive/h1.narinfo'', ''/work/archive/h2.narinfo''], demoWorld)"
  by (simp add: fs_defs path_defs demo_defs)

section \<open>The switch command ignores its mode\<close>

text \<open>
  C1. \<open>executeStoreSwitchCommand\<close> does not read \<open>mode\<close>: a command in mode
  \<open>NextReboot\<close> is executed exactly as the same command in mode \<open>Immediate\<close>, by one
  call of \<^verbatim>\<open>makeNewSystemGeneration\<close> on the store \<^verbatim>\<open>/\<close> with
  \<^verbatim>\<open>executeActivation: "switch"\<close>.
\<close>

theorem executeStoreSwitchCommand_ignores_mode:
  "executeStoreSwitchCommand E \<lparr>item = i, mode = NextReboot\<rparr> shared w
     = executeStoreSwitchCommand E \<lparr>item = i, mode = Immediate\<rparr> shared w
   \<and> newEvents w (snd (executeStoreSwitchCommand E \<lparr>item = i, mode = NextReboot\<rparr> shared w))
     = [MakeNewSystemGeneration ''/'' (nixPath i) ''switch'']"
  by (simp add: executeStoreSwitchCommand_def call_def newEvents_def split: option.splits)

section \<open>The revision that is built\<close>

text \<open>Whatever revision a caller supplies, \<open>buildSystemFlake\<close> does the same.\<close>

lemma buildSystemFlake_ignores_revArg:
  "buildSystemFlake E (args\<lparr>revArg := r\<rparr>) = buildSystemFlake E args"
  by (simp add: buildSystemFlake_def cong: if_cong)

text \<open>
  C2. The callers pass the revision as \<open>revArg\<close>, which \<open>buildSystemFlake\<close> does not read:
  it resolves the revision of the default reference and builds that one. Here the flake's
  default branch is at \<^verbatim>\<open>r0\<close>, the past revision is \<^verbatim>\<open>r0\<close> and the new revision is
  \<^verbatim>\<open>r1\<close>: both builds run \<^verbatim>\<open>nix build\<close> at \<^verbatim>\<open>?rev=r0\<close>, and the command that is
  returned pairs \<^verbatim>\<open>gitRevision = r1\<close> with the output of the build of \<^verbatim>\<open>r0\<close>.
\<close>

theorem buildLoad_builds_default_revision:
  "buildLoadArchiveDeltaCommand demoEnv ''archive'' ''flake'' ''testvm'' [''r0''] False ''r1''
       demoBuildShared emptyWorld
   = (Inr \<lparr>item = \<lparr>nixPath = ''/nix/store/top-r0'', gitRevision = ''r1''\<rparr>,
           archivePath = ''archive'',
           deltaDependencies = [\<lparr>nixPath = ''/nix/store/top-r0'', gitRevision = ''r0''\<rparr>],
           partialNarinfos = False\<rparr>,
      \<lparr>files = [],
       trace =
         [Progress ''Building previous revisions'',
          Progress ''Building revision r0'',
          Exec ''nix flake info --json flake'',
          Exec ''nix flake show --json flake?rev=r0'',
          Exec ''nix build --json --no-link --store /build/store flake?rev=r0#nixosConfigurations.testvm.config.system.build.toplevel'',
          Progress ''Building new revision'',
          Exec ''nix flake info --json flake'',
          Exec ''nix flake show --json flake?rev=r0'',
          Exec ''nix build --json --no-link --store /build/store flake?rev=r0#nixosConfigurations.testvm.config.system.build.toplevel'',
          Progress ''Copying to archive'',
          CopyOutputToArchive ''/build/store'' ''/build/archive'' ''/nix/store/top-r0'',
          Progress ''Getting path info'',
          Progress ''1 paths added, with a total 2 store items.'',
          Progress ''Building new archive'',
          Rm ''/build/instruction/archive'',
          MakeArchiveSubset ''/build/archive'' ''/build/instruction/archive''
            [''/nix/store/a-lib'', ''/nix/store/b-top''] [''/nix/store/b-top'']]\<rparr>)"
  by (simp add: buildLoadArchiveDeltaCommand_def flake_defs path_defs digitChar_def Let_def
        io_defs demo_defs)

section \<open>Executing a Load command\<close>













text \<open>
  C10. The executor never consults \<open>partialNarinfos\<close>: two Load commands that differ only
  in this field have the same result and leave the same world (the same files and the same
  trace of enrichment, import and cache-append operations).
\<close>

theorem executeLoad_ignores_partialNarinfos:
  "executeLoadArchiveDeltaCommand E
       \<lparr>item = i, archivePath = a, deltaDependencies = d, partialNarinfos = True\<rparr> shared w
   = executeLoadArchiveDeltaCommand E
       \<lparr>item = i, archivePath = a, deltaDependencies = d, partialNarinfos = False\<rparr> shared w"
  by (simp add: executeLoadArchiveDeltaCommand_def)







section \<open>Building a Load command\<close>















lemma rm_gone: "isUnder dir q \<Longrightarrow> map_of (filter (\<lambda>(p, c). \<not> isUnder dir p) fs) q = None"
  by (auto simp: map_of_eq_None_iff)




section \<open>The handler dummy2 and its workdir\<close>

lemma quiet_refl: "quiet w w"
  by (simp add: quiet_def)

lemma quiet_trans: "quiet w w1 \<Longrightarrow> quiet w1 w2 \<Longrightarrow> quiet w w2"
  by (auto simp: quiet_def)

lemma quiet_event: "\<not> isRm ev \<Longrightarrow> quiet w (w\<lparr>trace := trace w @ [ev]\<rparr>)"
  by (simp add: quiet_def)

lemma quietly_failsQuietly: "quietly m \<Longrightarrow> failsQuietly m"
  by (simp add: quietly_def failsQuietly_def)

lemma quietly_tracks: "quietly m \<Longrightarrow> tracks m"
  unfolding quietly_def tracks_def quiet_def by blast

lemma quietly_andThen:
  assumes "quietly m" "\<And>a. quietly (f a)"
  shows "quietly (andThen m f)"
  unfolding quietly_def
proof (intro allI impI)
  fix w r w'
  assume "andThen m f w = (r, w')"
  then show "quiet w w'"
  proof (cases rule: andThen_cases)
    case (fails e)
    then show ?thesis using assms(1) by (simp add: quietly_def)
  next
    case (continues a w1)
    then show ?thesis using assms quiet_trans unfolding quietly_def by blast
  qed
qed

lemma failsQuietly_andThen:
  assumes "quietly m" "\<And>a. failsQuietly (f a)"
  shows "failsQuietly (andThen m f)"
  unfolding failsQuietly_def
proof (intro allI impI)
  fix w e w'
  assume "andThen m f w = (Inl e, w')"
  then show "quiet w w'"
  proof (cases rule: andThen_cases)
    case (fails e')
    then show ?thesis using assms(1) by (simp add: quietly_def)
  next
    case (continues a w1)
    then show ?thesis using assms quiet_trans unfolding quietly_def failsQuietly_def by blast
  qed
qed

lemma quietly_ok: "quietly (ok a)"
  by (simp add: quietly_def ok_def quiet_refl)

lemma quietly_throw: "quietly (throw e)"
  by (simp add: quietly_def throw_def quiet_refl)

lemma quietly_emit: "\<not> isRm ev \<Longrightarrow> quietly (emit ev)"
  by (auto simp: quietly_def emit_def quiet_event)

lemma quietly_query: "quietly (query r)"
  by (auto simp: quietly_def query_def quiet_refl)

lemma quietly_call: "\<not> isRm ev \<Longrightarrow> quietly (call ev r)"
  by (auto simp: quietly_def call_def quiet_event split: option.splits)

lemma quietly_attempt: "quietly (\<lambda>w. attempt (g w) w)"
  by (auto simp: quietly_def attempt_def ok_def throw_def quiet_refl split: option.splits)

lemma quietly_list: "quietly (getAbsoluteFilesListInDir d)"
  by (auto simp: quietly_def getAbsoluteFilesListInDir_def quiet_refl)

lemma quietly_copyFile: "quietly (copyFile src dst)"
  by (auto simp: quietly_def copyFile_def quiet_def readFile_def update_conv'
           split: option.splits if_splits)

lemma quietly_round:
  "quietly (\<lambda>w. if keep \<and> readFile w dst \<noteq> None then ok () w else copyFile src dst w)"
  using quietly_copyFile[of src dst] by (auto simp: quietly_def ok_def quiet_refl)

lemma quietly_copyIntoCache: "quietly (copyIntoCache keep dir fs)"
proof (induction fs)
  case Nil
  show ?case by (simp add: quietly_ok)
next
  case (Cons f fs)
  show ?case
    unfolding copyIntoCache.simps
    by (rule quietly_andThen) (rule quietly_round, rule Cons.IH)
qed

lemma quietly_copyFilesInto: "quietly (copyFilesInto dir fs)"
  by (simp add: copyFilesInto_eq quietly_copyIntoCache)

lemma quietly_copyNarinfoFilesToCache: "quietly (copyNarinfoFilesToCache E dir fs)"
  by (simp add: copyNarinfoFilesToCache_def quietly_copyIntoCache)

lemma quietly_consoleLogEach: "quietly (consoleLogEach ps)"
  by (induction ps) (auto intro!: quietly_ok quietly_andThen quietly_emit)

lemma failsQuietly_rm: "failsQuietly (rm d)"
  by (simp add: failsQuietly_def rm_def)

lemma tracks_decompress: "tracks (decompress E d i)"
  by (auto simp: tracks_def decompress_def split: sum.splits)

lemma cleansUp_andThen:
  assumes "tracks m" "\<And>a. cleansUp dir (f a)"
  shows "cleansUp dir (andThen m f)"
  unfolding cleansUp_def
proof (intro allI impI)
  fix w w'
  assume "andThen m f w = (Inr (), w')"
  then obtain a w1 where a: "m w = (Inr a, w1)" and b: "f a w1 = (Inr (), w')"
    by (auto simp: andThen_Inr)
  obtain e1 where e1: "trace w1 = trace w @ e1" using assms(1) a unfolding tracks_def by blast
  from assms(2)[of a] b obtain e2 where
    e2: "trace w' = trace w1 @ e2 @ [ConsoleLog ''Cleaning up'', Rm dir]"
    and gone: "\<forall>q. isUnder dir q \<longrightarrow> readFile w' q = None"
    unfolding cleansUp_def by blast
  have "trace w' = trace w @ (e1 @ e2) @ [ConsoleLog ''Cleaning up'', Rm dir]"
    using e1 e2 by simp
  then show "(\<exists>evs. trace w' = trace w @ evs @ [ConsoleLog ''Cleaning up'', Rm dir])
       \<and> (\<forall>q. isUnder dir q \<longrightarrow> readFile w' q = None)"
    using gone by blast
qed

lemma cleansUp_throw: "cleansUp dir (throw e)"
  by (simp add: cleansUp_def throw_def)

lemma cleansUp_final: "cleansUp dir (andThen (emit (ConsoleLog ''Cleaning up'')) (\<lambda>_. rm dir))"
  by (auto simp: cleansUp_def andThen_def emit_def rm_def readFile_def rm_gone)

lemma dummy2_split:
  "dummy2 E wd0 ip0 cs0 sp0 =
     andThen (emit (Mkdir (ensurePathAbsolute E wd0))) (\<lambda>_.
     andThen (emit (ConsoleLog ''Decompressing instruction'')) (\<lambda>_.
     andThen (decompress E (ensurePathAbsolute E wd0) (ensurePathAbsolute E ip0)) (\<lambda>_.
       dummy2_rest E (ensurePathAbsolute E wd0) (ensurePathAbsolute E cs0)
         (ensurePathAbsolute E sp0))))"
  by (simp add: dummy2_def dummy2_rest_def Let_def cong: if_cong)

lemmas quiet_rules = quietly_ok quietly_throw quietly_emit quietly_query quietly_call
  quietly_attempt quietly_list quietly_copyFilesInto quietly_copyNarinfoFilesToCache
  quietly_consoleLogEach

lemma dummy2_rest_failsQuietly: "failsQuietly (dummy2_rest E wd cs sp)"
  unfolding dummy2_rest_def
  by (intro failsQuietly_andThen failsQuietly_rm quiet_rules allI impI
        | simp add: quietly_failsQuietly quietly_throw)+

lemma dummy2_cleansUp: "cleansUp (ensurePathAbsolute E wd0) (dummy2 E wd0 ip0 cs0 sp0)"
  unfolding dummy2_split dummy2_rest_def
  by (intro cleansUp_andThen cleansUp_final quietly_tracks tracks_decompress quiet_rules
        allI impI | simp add: cleansUp_throw)+


lemma decompress_result:
  "decompress E d i w = (r, w') \<Longrightarrow>
     trace w' = trace w @ [DecompressInstructionDir d i]
     \<and> (case decompressInstructionDir E w d i of
          Inl e \<Rightarrow> r = Inl e
        | Inr fs \<Rightarrow> r = Inr () \<and> files w' = fs)"
  by (auto simp: decompress_def split: sum.splits)

text \<open>
  C9. When the handler succeeds, its last step is the recursive removal of the workdir,
  and no file is left under it. When any step fails, the error is the handler's result, no
  removal has been performed, and every file the extraction had put in place is still
  there.
\<close>

theorem dummy2_workdir:
  assumes run: "dummy2 E wd0 ip0 cs0 sp0 w = (r, w')"
  shows "(r = Inr () \<longrightarrow>
            (\<exists>evs. newEvents w w' = evs @ [ConsoleLog ''Cleaning up'', Rm (ensurePathAbsolute E wd0)])
            \<and> (\<forall>q. isUnder (ensurePathAbsolute E wd0) q \<longrightarrow> readFile w' q = None))
       \<and> (\<forall>e. r = Inl e \<longrightarrow>
            filter isRm (newEvents w w') = []
            \<and> (\<forall>fs q. decompressInstructionDir E
                         (w\<lparr>trace := trace w @ [Mkdir (ensurePathAbsolute E wd0),
                                                ConsoleLog ''Decompressing instruction'']\<rparr>)
                         (ensurePathAbsolute E wd0) (ensurePathAbsolute E ip0) = Inr fs
                      \<and> q \<in> fst ` set fs
                    \<longrightarrow> readFile w' q \<noteq> None))"
proof (intro conjI impI allI)
  assume "r = Inr ()"
  then have "\<exists>evs. trace w' = trace w @ evs @ [ConsoleLog ''Cleaning up'', Rm (ensurePathAbsolute E wd0)]"
    and gone: "\<forall>q. isUnder (ensurePathAbsolute E wd0) q \<longrightarrow> readFile w' q = None"
    using dummy2_cleansUp[of E wd0 ip0 cs0 sp0] run unfolding cleansUp_def by blast+
  then show "\<exists>evs. newEvents w w' = evs @ [ConsoleLog ''Cleaning up'', Rm (ensurePathAbsolute E wd0)]"
    using newEvents_append by blast
  fix q assume "isUnder (ensurePathAbsolute E wd0) q"
  then show "readFile w' q = None" using gone by simp
next
  fix e assume e: "r = Inl e"
  let ?wd = "ensurePathAbsolute E wd0" and ?ip = "ensurePathAbsolute E ip0"
  let ?w2 = "w\<lparr>trace := trace w @ [Mkdir ?wd, ConsoleLog ''Decompressing instruction'']\<rparr>"
  from run e
  have "andThen (decompress E ?wd ?ip)
          (\<lambda>_. dummy2_rest E ?wd (ensurePathAbsolute E cs0) (ensurePathAbsolute E sp0)) ?w2
        = (Inl e, w')"
    unfolding dummy2_split by (simp add: andThen_def emit_def)
  then have "filter isRm (newEvents w w') = []
       \<and> (\<forall>fs q. decompressInstructionDir E ?w2 ?wd ?ip = Inr fs \<and> q \<in> fst ` set fs
             \<longrightarrow> readFile w' q \<noteq> None)"
  proof (cases rule: andThen_cases)
    case (fails e')
    from decompress_result[OF fails(1)]
    have "trace w' = trace w @ [Mkdir ?wd, ConsoleLog ''Decompressing instruction'',
                                 DecompressInstructionDir ?wd ?ip]"
      and "\<forall>fs. decompressInstructionDir E ?w2 ?wd ?ip \<noteq> Inr fs"
      by (auto split: sum.splits)
    then show ?thesis by (simp add: newEvents_def)
  next
    case (continues a w3)
    have q: "quiet w3 w'"
      using dummy2_rest_failsQuietly continues(2) unfolding failsQuietly_def by blast
    from decompress_result[OF continues(1)]
    have t3: "trace w3 = trace w @ [Mkdir ?wd, ConsoleLog ''Decompressing instruction'',
                                     DecompressInstructionDir ?wd ?ip]"
      and f3: "\<forall>fs. decompressInstructionDir E ?w2 ?wd ?ip = Inr fs \<longrightarrow> files w3 = fs"
      by (auto split: sum.splits)
    from q obtain evs where evs: "trace w' = trace w3 @ evs" "filter isRm evs = []"
      and kept: "\<forall>q. readFile w3 q \<noteq> None \<longrightarrow> readFile w' q \<noteq> None"
      unfolding quiet_def by blast
    have "filter isRm (newEvents w w') = []" using t3 evs by (simp add: newEvents_def)
    moreover have "readFile w' q \<noteq> None"
      if "decompressInstructionDir E ?w2 ?wd ?ip = Inr fs" "q \<in> fst ` set fs" for fs q
    proof -
      have "files w3 = fs" using f3 that(1) by simp
      then have "readFile w3 q \<noteq> None" using that(2) by (simp add: readFile_def map_of_eq_None_iff)
      then show ?thesis using kept by simp
    qed
    ultimately show ?thesis by blast
  qed
  then show "filter isRm (newEvents w w') = []" by simp
  fix fs q
  assume "decompressInstructionDir E ?w2 ?wd ?ip = Inr fs \<and> q \<in> fst ` set fs"
  then show "readFile w' q \<noteq> None" using \<open>filter isRm (newEvents w w') = [] \<and> _\<close> by blast
qed

lemma demo_dummy2_run:
  "dummy2 demoEnv ''/work'' ''/in/instruction.tar.xz'' ''/cache'' ''/'' emptyWorld
   = (Inr (),
      \<lparr>files =
         [(''/store/h1.narinfo'', ''B''), (''/store/h0.narinfo'', ''Y''),
          (''/cache/h0.narinfo'', ''Z''), (''/cache/h1.narinfo'', ''B''),
          (''/cache/h2.narinfo'', ''N''), (''/cache/nar1'', ''data'')],
       trace =
         [Mkdir ''/work'', ConsoleLog ''Decompressing instruction'',
          DecompressInstructionDir ''/work'' ''/in/instruction.tar.xz'',
          ConsoleLog ''/work/archive/h1.narinfo'',
          ConsoleLog ''/work/archive/h2.narinfo'',
          ConsoleLog ''/work/archive/nar1'',
          CopyFile ''/store/h1.narinfo'' ''/work/archive/h1.narinfo'',
          ConsoleLog ''Copying nix store items to the store'',
          CopyArchiveToStore ''/work/archive'' ''/nix/store/b-top'' None,
          ConsoleLog ''Updating local config'',
          CopyFile ''/work/archive/h1.narinfo'' ''/cache/h1.narinfo'',
          CopyFile ''/work/archive/h2.narinfo'' ''/cache/h2.narinfo'',
          CopyFile ''/work/archive/nar1'' ''/cache/nar1'',
          ConsoleLog ''Cleaning up'', Rm ''/work'']\<rparr>)"
  by (simp add: dummy2_def decompress_def io_defs fs_defs path_defs demo_defs Let_def)

lemma demo_dummy2_fails:
  "dummy2 demoEnvImportFails ''/work'' ''/in/instruction.tar.xz'' ''/cache'' ''/'' emptyWorld
   = (Inl (ExternalToolFailure ''hash mismatch''),
      \<lparr>files =
         [(''/work/archive/h1.narinfo'', ''B''),
          (''/work/archive/h2.narinfo'', ''N''),
          (''/work/archive/nar1'', ''data''),
          (''/store/h1.narinfo'', ''B''), (''/store/h0.narinfo'', ''Y''),
          (''/cache/h0.narinfo'', ''Z'')],
       trace =
         [Mkdir ''/work'', ConsoleLog ''Decompressing instruction'',
          DecompressInstructionDir ''/work'' ''/in/instruction.tar.xz'',
          ConsoleLog ''/work/archive/h1.narinfo'',
          ConsoleLog ''/work/archive/h2.narinfo'',
          ConsoleLog ''/work/archive/nar1'',
          CopyFile ''/store/h1.narinfo'' ''/work/archive/h1.narinfo'',
          ConsoleLog ''Copying nix store items to the store'',
          CopyArchiveToStore ''/work/archive'' ''/nix/store/b-top'' None]\<rparr>)"
  by (simp add: dummy2_def decompress_def io_defs fs_defs path_defs demo_defs Let_def)

theorem dummy2_workdir_witness:
  "fst (dummy2 demoEnv ''/work'' ''/in/instruction.tar.xz'' ''/cache'' ''/'' emptyWorld) = Inr ()
   \<and> (\<exists>evs. newEvents emptyWorld
               (snd (dummy2 demoEnv ''/work'' ''/in/instruction.tar.xz'' ''/cache'' ''/'' emptyWorld))
             = evs @ [ConsoleLog ''Cleaning up'', Rm ''/work''])
   \<and> isUnder ''/work'' ''/work/archive/h2.narinfo''
   \<and> readFile (snd (dummy2 demoEnv ''/work'' ''/in/instruction.tar.xz'' ''/cache'' ''/'' emptyWorld))
        ''/work/archive/h2.narinfo'' = None
   \<and> fst (dummy2 demoEnvImportFails ''/work'' ''/in/instruction.tar.xz'' ''/cache'' ''/'' emptyWorld)
       = Inl (ExternalToolFailure ''hash mismatch'')
   \<and> filter isRm (newEvents emptyWorld
        (snd (dummy2 demoEnvImportFails ''/work'' ''/in/instruction.tar.xz'' ''/cache'' ''/''
                emptyWorld))) = []
   \<and> decompressInstructionDir demoEnvImportFails
        (emptyWorld\<lparr>trace := trace emptyWorld
           @ [Mkdir ''/work'', ConsoleLog ''Decompressing instruction'']\<rparr>)
        ''/work'' ''/in/instruction.tar.xz'' = Inr demoFiles
   \<and> ''/work/archive/h2.narinfo'' \<in> fst ` set demoFiles
   \<and> readFile (snd (dummy2 demoEnvImportFails ''/work'' ''/in/instruction.tar.xz'' ''/cache'' ''/''
                       emptyWorld)) ''/work/archive/h2.narinfo'' \<noteq> None"
proof -
  let ?ok = "dummy2 demoEnv ''/work'' ''/in/instruction.tar.xz'' ''/cache'' ''/'' emptyWorld"
  let ?bad = "dummy2 demoEnvImportFails ''/work'' ''/in/instruction.tar.xz'' ''/cache'' ''/''
                emptyWorld"
  have abs: "ensurePathAbsolute demoEnv p = p" "ensurePathAbsolute demoEnvImportFails p = p" for p
    by (simp_all add: demo_defs)
  have r1: "?ok = (Inr (), snd ?ok)" by (simp add: demo_dummy2_run)
  have r2: "?bad = (Inl (ExternalToolFailure ''hash mismatch''), snd ?bad)"
    by (simp add: demo_dummy2_fails)
  have f1: "fst ?ok = Inr ()" by (simp add: demo_dummy2_run)
  have f2: "fst ?bad = Inl (ExternalToolFailure ''hash mismatch'')" by (simp add: demo_dummy2_fails)
  have u: "isUnder ''/work'' ''/work/archive/h2.narinfo''" by (simp add: path_defs)
  have dec: "decompressInstructionDir demoEnvImportFails
        (emptyWorld\<lparr>trace := trace emptyWorld
           @ [Mkdir ''/work'', ConsoleLog ''Decompressing instruction'']\<rparr>)
        ''/work'' ''/in/instruction.tar.xz'' = Inr demoFiles"
    by (simp add: demo_defs)
  have mem: "''/work/archive/h2.narinfo'' \<in> fst ` set demoFiles" by (simp add: demoFiles_def)
  note t1 = dummy2_workdir[OF r1, unfolded abs]
  note t2 = dummy2_workdir[OF r2, unfolded abs]
  from t1
  have a: "\<exists>evs. newEvents emptyWorld (snd ?ok) = evs @ [ConsoleLog ''Cleaning up'', Rm ''/work'']"
    and b: "\<forall>q. isUnder ''/work'' q \<longrightarrow> readFile (snd ?ok) q = None"
    by blast+
  from t2
  have c: "filter isRm (newEvents emptyWorld (snd ?bad)) = []"
    and d: "\<forall>fs q. decompressInstructionDir demoEnvImportFails
                      (emptyWorld\<lparr>trace := trace emptyWorld
                         @ [Mkdir ''/work'', ConsoleLog ''Decompressing instruction'']\<rparr>)
                      ''/work'' ''/in/instruction.tar.xz'' = Inr fs
                    \<and> q \<in> fst ` set fs
                  \<longrightarrow> readFile (snd ?bad) q \<noteq> None"
    by blast+
  have g: "readFile (snd ?ok) ''/work/archive/h2.narinfo'' = None" using b u by blast
  have k: "readFile (snd ?bad) ''/work/archive/h2.narinfo'' \<noteq> None" using d dec mem by blast
  show ?thesis by (intro conjI) (rule f1 a u g f2 c dec mem k)+
qed

section \<open>The delta engine\<close>

lemma minByPath_in: "minByPath c cs \<in> set (c # cs)"
proof (induction cs arbitrary: c)
  case Nil
  then show ?case by simp
next
  case (Cons q qs)
  have "minByPath (if path q < path c then q else c) qs
          \<in> set ((if path q < path c then q else c) # qs)"
    by (rule Cons.IH)
  then show ?case by (cases "path q < path c") auto
qed

lemma pickReady_in:
  assumes "pickReady ps = Some p"
  shows "p \<in> set ps"
proof -
  from assms obtain c cs where f: "filter (ready ps) ps = c # cs" and p: "p = minByPath c cs"
    by (auto simp: pickReady_def split: list.splits)
  have "p \<in> set (filter (ready ps) ps)" using minByPath_in[of c cs] f p by simp
  then show ?thesis by simp
qed

lemma insert_remove1:
  assumes "p \<in> set ps"
  shows "insert p (set (remove1 p ps)) = set ps"
proof (intro set_eqI iffI)
  fix x assume "x \<in> insert p (set (remove1 p ps))"
  then show "x \<in> set ps" using assms notin_set_remove1 by fastforce
next
  fix x assume x: "x \<in> set ps"
  show "x \<in> insert p (set (remove1 p ps))"
  proof (cases "x = p")
    case True then show ?thesis by simp
  next
    case False then show ?thesis using x in_set_remove1[of x p ps] by simp
  qed
qed

lemma topoRounds_set:
  "topoRounds ks ps = Inr out \<Longrightarrow> length ks = length ps \<Longrightarrow> set out = set ps"
proof (induction ks arbitrary: ps out)
  case Nil
  then show ?case by simp
next
  case (Cons k ks)
  from Cons.prems(1) obtain p rest where p: "pickReady ps = Some p"
    and rest: "topoRounds ks (remove1 p ps) = Inr rest" and out: "out = p # rest"
    by (auto split: option.splits sum.splits)
  have pin: "p \<in> set ps" using pickReady_in[OF p] .
  then have "length ks = length (remove1 p ps)" using Cons.prems(2) by (simp add: length_remove1)
  then have "set rest = set (remove1 p ps)" using Cons.IH[OF rest] by simp
  then show ?case using out insert_remove1[OF pin] by simp
qed

lemma topoSort_set: "topoSort ps = Inr out \<Longrightarrow> set out = set ps"
  unfolding topoSort_def using topoRounds_set by blast

lemma dedupByPath_subset: "set (dedupByPath seen ps) \<subseteq> set ps"
  by (induction ps arbitrary: seen) auto

lemma dedupByPath_paths: "path ` set (dedupByPath seen ps) = path ` set ps - set seen"
  by (induction ps arbitrary: seen) auto

lemma dedupByPath_distinct:
  "distinct (map path ps) \<Longrightarrow> set seen \<inter> path ` set ps = {} \<Longrightarrow> dedupByPath seen ps = ps"
  by (induction ps arbitrary: seen) auto

lemma fromClosures_paths:
  "fromClosures qpi D F = Inr Fp \<Longrightarrow>
     (\<forall>x. x \<in> set Fp \<longleftrightarrow> (\<exists>r \<in> set F. \<exists>cr. closure qpi D r = Inr cr \<and> x \<in> path ` set cr))"
proof (induction F arbitrary: Fp)
  case Nil
  then show ?case by simp
next
  case (Cons r rs)
  from Cons.prems obtain c cs where c: "closure qpi D r = Inr c"
    and cs: "fromClosures qpi D rs = Inr cs" and Fp: "Fp = map path c @ cs"
    by (auto split: sum.splits)
  show ?case using Cons.IH[OF cs] c Fp by auto
qed

lemma fromClosures_single: "fromClosures qpi D [T] = Inr Fp \<Longrightarrow> closure qpi D T = Inr c
    \<Longrightarrow> set Fp = path ` set c"
  by (auto split: sum.splits)

text \<open>
  C3. When \<open>computeDelta\<close> returns a delta, \<open>allResultingItems\<close> is the closure of the
  to-root (the same paths; the same items when the adapter lists each path once), and
  \<open>added\<close> is the list of its items whose path is in the closure of no from-root. So
  \<open>added\<close> shares no path with any from-closure, it is the whole closure when there is no
  from-root, and it is empty when the only from-root is the to-root.
\<close>

theorem computeDelta_added:
  assumes run: "computeDelta qpi D F T = Inr d"
  shows "(\<exists>c. closure qpi D T = Inr c
             \<and> set (allResultingItems d) \<subseteq> set c
             \<and> path ` set (allResultingItems d) = path ` set c
             \<and> (distinct (map path c) \<longrightarrow> set (allResultingItems d) = set c))
       \<and> added d = [p \<leftarrow> allResultingItems d.
                     \<forall>r \<in> set F. \<forall>cr. closure qpi D r = Inr cr \<longrightarrow> path p \<notin> path ` set cr]
       \<and> (\<forall>r \<in> set F. \<forall>cr. closure qpi D r = Inr cr
              \<longrightarrow> path ` set (added d) \<inter> path ` set cr = {})
       \<and> (F = [] \<longrightarrow> added d = allResultingItems d)
       \<and> (F = [T] \<longrightarrow> added d = [])"
proof -
  from run obtain Fp c Ts where Fp: "fromClosures qpi D F = Inr Fp"
    and c: "closure qpi D T = Inr c"
    and Ts: "topoSort (dedupByPath [] c) = Inr Ts"
    and d: "d = \<lparr>added = [p \<leftarrow> Ts. path p \<notin> set Fp], allResultingItems = Ts\<rparr>"
    by (auto simp: computeDelta_def split: sum.splits)
  have setTs: "set Ts = set (dedupByPath [] c)" using topoSort_set[OF Ts] .
  have sub: "set Ts \<subseteq> set c" using setTs dedupByPath_subset by blast
  have paths: "path ` set Ts = path ` set c" using setTs dedupByPath_paths[of "[]" c] by simp
  have dist: "distinct (map path c) \<longrightarrow> set Ts = set c"
    using setTs dedupByPath_distinct[of c "[]"] by simp
  have mem: "x \<in> set Fp \<longleftrightarrow> (\<exists>r \<in> set F. \<exists>cr. closure qpi D r = Inr cr \<and> x \<in> path ` set cr)" for x
    using fromClosures_paths[OF Fp] by blast
  have addedEq: "added d = [p \<leftarrow> Ts.
                     \<forall>r \<in> set F. \<forall>cr. closure qpi D r = Inr cr \<longrightarrow> path p \<notin> path ` set cr]"
    unfolding d by (simp, rule filter_cong, simp, use mem in blast)
  have disj: "\<forall>r \<in> set F. \<forall>cr. closure qpi D r = Inr cr
              \<longrightarrow> path ` set (added d) \<inter> path ` set cr = {}"
    unfolding addedEq by auto
  have empty: "F = [] \<longrightarrow> added d = Ts" unfolding addedEq by simp
  have self: "F = [T] \<longrightarrow> added d = []"
  proof
    assume "F = [T]"
    then have "\<forall>p \<in> set Ts. \<not> (\<forall>r \<in> set F. \<forall>cr. closure qpi D r = Inr cr \<longrightarrow> path p \<notin> path ` set cr)"
      using c sub by auto
    then show "added d = []" unfolding addedEq by (simp add: filter_empty_conv)
  qed
  have all: "allResultingItems d = Ts" using d by simp
  show ?thesis using c sub paths dist addedEq disj empty self unfolding all by blast
qed

lemma demo_delta_runs:
  "computeDelta demoQueryPathInfo ''/build/store'' [''/nix/store/a-lib''] ''/nix/store/b-top''
     = Inr demoDelta"
  "computeDelta demoQueryPathInfo ''/build/store'' [] ''/nix/store/b-top''
     = Inr \<lparr>added = allResultingItems demoDelta, allResultingItems = allResultingItems demoDelta\<rparr>"
  "computeDelta demoQueryPathInfo ''/build/store'' [''/nix/store/b-top''] ''/nix/store/b-top''
     = Inr \<lparr>added = [], allResultingItems = allResultingItems demoDelta\<rparr>"
  by (simp_all add: computeDelta_def closure_def topoSort_def pickReady_def ready_def
        demoQueryPathInfo_def demoDelta_def)

theorem computeDelta_added_witness:
  "computeDelta demoQueryPathInfo ''/build/store'' [''/nix/store/a-lib''] ''/nix/store/b-top''
     = Inr demoDelta
   \<and> closure demoQueryPathInfo ''/build/store'' ''/nix/store/a-lib''
       = Inr [hd (allResultingItems demoDelta)]
   \<and> ''/nix/store/a-lib'' \<in> set [''/nix/store/a-lib'']
   \<and> path ` set (added demoDelta) \<inter> path ` set [hd (allResultingItems demoDelta)] = {}
   \<and> closure demoQueryPathInfo ''/build/store'' ''/nix/store/b-top''
       = Inr (rev (allResultingItems demoDelta))
   \<and> distinct (map path (rev (allResultingItems demoDelta)))
   \<and> set (allResultingItems demoDelta) = set (rev (allResultingItems demoDelta))
   \<and> (\<exists>d. computeDelta demoQueryPathInfo ''/build/store'' [] ''/nix/store/b-top'' = Inr d
          \<and> added d = allResultingItems d)
   \<and> (\<exists>d. computeDelta demoQueryPathInfo ''/build/store'' [''/nix/store/b-top'']
              ''/nix/store/b-top'' = Inr d
          \<and> added d = [])"
proof -
  note t1 = computeDelta_added[OF demo_delta_runs(1)]
  note t2 = computeDelta_added[OF demo_delta_runs(2)]
  note t3 = computeDelta_added[OF demo_delta_runs(3)]
  have c1: "closure demoQueryPathInfo ''/build/store'' ''/nix/store/a-lib''
              = Inr [hd (allResultingItems demoDelta)]"
    by (simp add: closure_def demoQueryPathInfo_def)
  have c2: "closure demoQueryPathInfo ''/build/store'' ''/nix/store/b-top''
              = Inr (rev (allResultingItems demoDelta))"
    by (simp add: closure_def demoQueryPathInfo_def)
  have m: "''/nix/store/a-lib'' \<in> set [''/nix/store/a-lib'']" by simp
  have dist: "distinct (map path (rev (allResultingItems demoDelta)))"
    by (simp add: demoDelta_def)
  from t1 have "\<forall>r \<in> set [''/nix/store/a-lib'']. \<forall>cr.
      closure demoQueryPathInfo ''/build/store'' r = Inr cr
        \<longrightarrow> path ` set (added demoDelta) \<inter> path ` set cr = {}"
    by blast
  then have disj: "path ` set (added demoDelta) \<inter> path ` set [hd (allResultingItems demoDelta)] = {}"
    using c1 m by blast
  from t1 obtain c where "closure demoQueryPathInfo ''/build/store'' ''/nix/store/b-top'' = Inr c"
    "distinct (map path c) \<longrightarrow> set (allResultingItems demoDelta) = set c"
    by blast
  then have same: "set (allResultingItems demoDelta) = set (rev (allResultingItems demoDelta))"
    using c2 dist by simp
  from t2 have e: "\<exists>d. computeDelta demoQueryPathInfo ''/build/store'' [] ''/nix/store/b-top'' = Inr d
          \<and> added d = allResultingItems d"
    using demo_delta_runs(2) by simp
  from t3 have s: "\<exists>d. computeDelta demoQueryPathInfo ''/build/store'' [''/nix/store/b-top'']
              ''/nix/store/b-top'' = Inr d \<and> added d = []"
    using demo_delta_runs(3) by simp
  show ?thesis by (intro conjI) (rule demo_delta_runs(1) c1 m disj c2 dist same e s)+
qed

section \<open>Validation\<close>

lemma two_matches:
  assumes "i < j" "j < length xs" "P (xs ! i)" "P (xs ! j)"
  shows "2 \<le> length (filter P xs)"
proof -
  have "xs ! i \<in> set (take j xs)" using assms(1,2) by (metis in_set_conv_nth length_take min.absorb2 nth_take less_imp_le_nat)
  then have a: "filter P (take j xs) \<noteq> []" using assms(3) by (auto simp: filter_empty_conv)
  have "xs ! j \<in> set (drop j xs)" using assms(2) by (metis Cons_nth_drop_Suc list.set_intros(1))
  then have b: "filter P (drop j xs) \<noteq> []" using assms(4) by (auto simp: filter_empty_conv)
  have "filter P xs = filter P (take j xs) @ filter P (drop j xs)"
    by (metis append_take_drop_id filter_append)
  moreover have "1 \<le> length (filter P (take j xs))" "1 \<le> length (filter P (drop j xs))"
    using a b by (simp_all add: Suc_leI)
  ultimately show ?thesis by simp
qed

lemma validateCommands_accepts:
  assumes "validateCommands isDir dir cmds = None"
  shows "length (filter isSwitch cmds) \<le> 1
       \<and> (\<forall>i < length cmds. isSwitch (cmds ! i) \<longrightarrow> Suc i = length cmds)"
proof -
  from assms have one: "\<not> 1 < length (filter isSwitch cmds)"
    and last: "filter isSwitch cmds = [] \<or> isSwitch (last cmds)"
    by (auto simp: validateCommands_def split: if_splits)
  have "Suc i = length cmds" if "i < length cmds" "isSwitch (cmds ! i)" for i
  proof (rule ccontr)
    assume n: "Suc i \<noteq> length cmds"
    have "filter isSwitch cmds \<noteq> []" using that by (auto simp: filter_empty_conv)
    then have "isSwitch (last cmds)" using last by simp
    moreover have "cmds \<noteq> []" using that(1) by auto
    ultimately have "isSwitch (cmds ! (length cmds - 1))" by (simp add: last_conv_nth)
    moreover have "i < length cmds - 1" "length cmds - 1 < length cmds" using that(1) n by auto
    ultimately have "2 \<le> length (filter isSwitch cmds)" using two_matches that(2) by blast
    then show False using one by simp
  qed
  then show ?thesis using one by auto
qed

lemma validateCommands_error:
  "validateCommands isDir dir cmds = Some e \<Longrightarrow> \<exists>reason. e = InvalidInstruction reason"
  by (auto simp: validateCommands_def split: if_splits)

text \<open>
  C8. When validation accepts an instruction directory, its commands hold at most one
  Switch, and a Switch is the last command. When a Switch stands before another command,
  validation fails with \<open>InvalidInstruction\<close>. Validation leaves the world as it was.
\<close>

theorem assertInstructionDirValid_switch_last:
  "(assertInstructionDirValid E dir w = (Inr (), w') \<longrightarrow>
      (\<exists>text j cmds.
         readFile w (path_join dir ''instruction.json'') = Some text
         \<and> JSON_parse E text = Some j \<and> parseInstruction j = Inr cmds
         \<and> length (filter isSwitch cmds) \<le> 1
         \<and> (\<forall>i < length cmds. isSwitch (cmds ! i) \<longrightarrow> Suc i = length cmds)))
   \<and> (\<forall>text j cmds i.
         readFile w (path_join dir ''instruction.json'') = Some text
         \<and> JSON_parse E text = Some j \<and> parseInstruction j = Inr cmds
         \<and> Suc i < length cmds \<and> isSwitch (cmds ! i)
       \<longrightarrow> (\<exists>reason. fst (assertInstructionDirValid E dir w) = Inl (InvalidInstruction reason)))
   \<and> snd (assertInstructionDirValid E dir w) = w"
proof (intro conjI impI allI)
  assume "assertInstructionDirValid E dir w = (Inr (), w')"
  then obtain body j cmds where
    "readFile w (path_join dir ''instruction.json'') = Some body"
    "JSON_parse E body = Some j" "parseInstruction j = Inr cmds"
    "validateCommands (isDirectory E w) dir cmds = None"
    by (auto simp: assertInstructionDirValid_def split: option.splits sum.splits)
  then show "\<exists>text j cmds.
         readFile w (path_join dir ''instruction.json'') = Some text
         \<and> JSON_parse E text = Some j \<and> parseInstruction j = Inr cmds
         \<and> length (filter isSwitch cmds) \<le> 1
         \<and> (\<forall>i < length cmds. isSwitch (cmds ! i) \<longrightarrow> Suc i = length cmds)"
    using validateCommands_accepts by blast
next
  fix body j cmds i
  assume a: "readFile w (path_join dir ''instruction.json'') = Some body
         \<and> JSON_parse E body = Some j \<and> parseInstruction j = Inr cmds
         \<and> Suc i < length cmds \<and> isSwitch (cmds ! i)"
  have "validateCommands (isDirectory E w) dir cmds \<noteq> None"
  proof
    assume "validateCommands (isDirectory E w) dir cmds = None"
    then have "\<forall>i < length cmds. isSwitch (cmds ! i) \<longrightarrow> Suc i = length cmds"
      using validateCommands_accepts by blast
    moreover have "i < length cmds" using a by simp
    ultimately have "Suc i = length cmds" using a by blast
    then show False using a by simp
  qed
  then obtain e where e: "validateCommands (isDirectory E w) dir cmds = Some e" by auto
  then obtain reason where "e = InvalidInstruction reason" using validateCommands_error by blast
  then show "\<exists>reason. fst (assertInstructionDirValid E dir w) = Inl (InvalidInstruction reason)"
    using a e by (simp add: assertInstructionDirValid_def)
next
  show "snd (assertInstructionDirValid E dir w) = w"
    by (simp add: assertInstructionDirValid_def split: option.splits sum.splits)
qed

lemma demo_parse_instructions:
  "parseInstruction demoSwitchFirst = Inr [Switch demoSwitchCommand, Load demoLoadCommand]"
  "parseInstruction demoSwitchLast = Inr [Load demoLoadCommand, Switch demoSwitchCommand]"
  by (simp_all add: demoSwitchFirst_def demoSwitchLast_def demoSwitchJson_def demoLoadJson_def
        demoSwitchCommand_def demoLoadCommand_def modeSchema_def)

theorem assertInstructionDirValid_switch_last_witness:
  "assertInstructionDirValid demoEnv ''/work'' demoSwitchLastWorld = (Inr (), demoSwitchLastWorld)
   \<and> (\<exists>cmds. parseInstruction demoSwitchLast = Inr cmds
          \<and> length (filter isSwitch cmds) \<le> 1
          \<and> (\<forall>i < length cmds. isSwitch (cmds ! i) \<longrightarrow> Suc i = length cmds))
   \<and> readFile demoSwitchFirstWorld (path_join ''/work'' ''instruction.json'')
       = Some ''switch-then-load''
   \<and> JSON_parse demoEnv ''switch-then-load'' = Some demoSwitchFirst
   \<and> parseInstruction demoSwitchFirst = Inr [Switch demoSwitchCommand, Load demoLoadCommand]
   \<and> Suc 0 < length [Switch demoSwitchCommand, Load demoLoadCommand]
   \<and> isSwitch ([Switch demoSwitchCommand, Load demoLoadCommand] ! 0)
   \<and> (\<exists>reason. fst (assertInstructionDirValid demoEnv ''/work'' demoSwitchFirstWorld)
                  = Inl (InvalidInstruction reason))
   \<and> fst (assertInstructionDirValid demoEnv ''/work'' demoSwitchFirstWorld)
       = Inl (InvalidInstruction ''switch must be last'')
   \<and> snd (assertInstructionDirValid demoEnv ''/work'' demoSwitchFirstWorld) = demoSwitchFirstWorld"
proof -
  have ok: "assertInstructionDirValid demoEnv ''/work'' demoSwitchLastWorld
              = (Inr (), demoSwitchLastWorld)"
    by (simp add: assertInstructionDirValid_def validateCommands_def demo_parse_instructions
          readFile_def path_defs demo_defs)
  have bad: "fst (assertInstructionDirValid demoEnv ''/work'' demoSwitchFirstWorld)
              = Inl (InvalidInstruction ''switch must be last'')"
    by (simp add: assertInstructionDirValid_def validateCommands_def demo_parse_instructions
          readFile_def path_defs demo_defs)
  have rd: "readFile demoSwitchFirstWorld (path_join ''/work'' ''instruction.json'')
              = Some ''switch-then-load''"
    by (simp add: readFile_def path_defs demo_defs)
  have js: "JSON_parse demoEnv ''switch-then-load'' = Some demoSwitchFirst"
    by (simp add: demo_defs)
  have rdl: "readFile demoSwitchLastWorld (path_join ''/work'' ''instruction.json'')
              = Some ''load-then-switch''"
    by (simp add: readFile_def path_defs demo_defs)
  have jsl: "JSON_parse demoEnv ''load-then-switch'' = Some demoSwitchLast"
    by (simp add: demo_defs)
  have len: "Suc 0 < length [Switch demoSwitchCommand, Load demoLoadCommand]" by simp
  have sw: "isSwitch ([Switch demoSwitchCommand, Load demoLoadCommand] ! 0)" by simp
  note t1 = assertInstructionDirValid_switch_last
              [of demoEnv "''/work''" demoSwitchLastWorld demoSwitchLastWorld]
  note t2 = assertInstructionDirValid_switch_last
              [of demoEnv "''/work''" demoSwitchFirstWorld demoSwitchFirstWorld]
  from t1 ok obtain body j cmds where
    "readFile demoSwitchLastWorld (path_join ''/work'' ''instruction.json'') = Some body"
    "JSON_parse demoEnv body = Some j" "parseInstruction j = Inr cmds"
    "length (filter isSwitch cmds) \<le> 1"
    "\<forall>i < length cmds. isSwitch (cmds ! i) \<longrightarrow> Suc i = length cmds"
    by blast
  then have acc: "\<exists>cmds. parseInstruction demoSwitchLast = Inr cmds
          \<and> length (filter isSwitch cmds) \<le> 1
          \<and> (\<forall>i < length cmds. isSwitch (cmds ! i) \<longrightarrow> Suc i = length cmds)"
    using rdl jsl by auto
  from t2 have rej: "\<exists>reason. fst (assertInstructionDirValid demoEnv ''/work'' demoSwitchFirstWorld)
                  = Inl (InvalidInstruction reason)"
    using rd js demo_parse_instructions(1) len sw by blast
  from t2 have pure: "snd (assertInstructionDirValid demoEnv ''/work'' demoSwitchFirstWorld)
                        = demoSwitchFirstWorld"
    by blast
  show ?thesis
    by (intro conjI) (rule ok acc rd js demo_parse_instructions(1) len sw rej bad pure)+
qed

end